theory Spec2Isabelle
  imports Main
begin

text \<open>
  A shallow embedding of the AI service of the SI-AGENT backend
  (\<^verbatim>\<open>backend/src/services/AIService.ts\<close>) and of the helper it imports from the error
  handler middleware (\<^verbatim>\<open>createError\<close>). The service is a proxy in front of a chat
  completion endpoint: \<^verbatim>\<open>makeRequest\<close> posts the messages; \<^verbatim>\<open>generateResponse\<close>,
  \<^verbatim>\<open>parseApiPrompt\<close> and \<^verbatim>\<open>generateApiCode\<close> build the messages and interpret the reply;
  \<^verbatim>\<open>testConnection\<close> reports whether a round trip worked.

  Conventions of the model.
  \<^item> A text the service receives or builds is a \<open>string\<close>; one \<open>char\<close> stands for one code
    unit, so these texts range over code units below 256. A text that \<^verbatim>\<open>JSON.parse\<close>
    decodes is a list of code units as numbers, since an escape of the reply can denote
    any code unit up to 65535.
  \<^item> A JavaScript number is carried as its decimal literal (the \<open>string\<close> of a \<open>JNum\<close>);
    the conversion to binary floating point is not modelled.
  \<^item> A promise that rejects is a result \<open>Inl err\<close>, one that resolves is \<open>Inr v\<close>.
  \<^item> The effects of a call (the records handed to the logger, the requests handed to
    \<^verbatim>\<open>fetch\<close>) are appended to an explicit \<open>world\<close>, which every operation returns.
  \<^item> What the network and the JavaScript runtime decide is an input: the \<open>runtime\<close> record
    holds the outcome of \<^verbatim>\<open>fetch\<close> for a request, and the stack frames recorded for an error
    created at a line of the service.
  \<^item> How long the upstream takes is an input as well, the \<open>pace\<close> of a call; a promise
    that never settles is the result \<open>None\<close>.
\<close>

section \<open>JSON values\<close>

text \<open>
  JSON values over a type of code units: \<open>char json\<close> for the values a caller passes and
  the service builds, \<open>nat json\<close> for the values \<^verbatim>\<open>JSON.parse\<close> produces. An object keeps
  its members in insertion order, as an association list. \<open>widen\<close> reads a value of the
  first kind as one of the second.
\<close>

datatype 'u json =
    JNull
  | JBool bool
  | JNum string
  | JStr "'u list"
  | JArr "'u json list"
  | JObj "('u list \<times> 'u json) list"

definition widen :: "char json \<Rightarrow> nat json" where
  "widen = map_json of_char"

subsection \<open>The lexical grammar of \<^verbatim>\<open>JSON.parse\<close>\<close>

definition dquote :: char where
  "dquote = CHR 0x22"

definition backslash :: char where
  "backslash = CHR 0x5C"

definition is_ws :: "char \<Rightarrow> bool" where
  "is_ws c = (c = CHR 0x20 \<or> c = CHR 0x09 \<or> c = CHR 0x0A \<or> c = CHR 0x0D)"

definition is_digit :: "char \<Rightarrow> bool" where
  "is_digit c = (c \<in> set ''0123456789'')"

definition hex_digit :: "char \<Rightarrow> nat option" where
  "hex_digit c = map_of (zip ''0123456789abcdefABCDEF'' ([0..<16] @ [10..<16])) c"

text \<open>
  A unicode escape (the letter u and four hexadecimal digits after the backslash) denotes
  the code unit with that number.
\<close>

definition unicode_escape :: "char \<Rightarrow> char \<Rightarrow> char \<Rightarrow> char \<Rightarrow> nat option" where
  "unicode_escape a b c d =
     (case (hex_digit a, hex_digit b, hex_digit c, hex_digit d) of
        (Some h3, Some h2, Some h1, Some h0) \<Rightarrow> Some (((h3 * 16 + h2) * 16 + h1) * 16 + h0)
      | _ \<Rightarrow> None)"

definition simple_escape :: "char \<Rightarrow> char option" where
  "simple_escape e =
     map_of [(dquote, dquote), (backslash, backslash), (CHR ''/'', CHR ''/''),
             (CHR ''b'', CHR 0x08), (CHR ''f'', CHR 0x0C), (CHR ''n'', CHR 0x0A),
             (CHR ''r'', CHR 0x0D), (CHR ''t'', CHR 0x09)] e"

definition prepend :: "nat \<Rightarrow> (nat list \<times> string) option \<Rightarrow> (nat list \<times> string) option" where
  "prepend c r = (case r of None \<Rightarrow> None | Some (s, rest) \<Rightarrow> Some (c # s, rest))"

text \<open>
  \<open>lex_string\<close> reads a string literal after its opening quote and returns the decoded
  code units with the input left after the closing quote. A control character, an unknown
  escape and a missing closing quote are errors.
\<close>

fun lex_string :: "string \<Rightarrow> (nat list \<times> string) option" where
  "lex_string [] = None"
| "lex_string (c # cs) =
     (if c = dquote then Some ([], cs)
      else if c = backslash then
        (case cs of
           [] \<Rightarrow> None
         | e # cs' \<Rightarrow>
             if e = CHR ''u'' then
               (case cs' of
                  h3 # h2 # h1 # h0 # cs'' \<Rightarrow>
                    (case unicode_escape h3 h2 h1 h0 of
                       None \<Rightarrow> None
                     | Some u \<Rightarrow> prepend u (lex_string cs''))
                | _ \<Rightarrow> None)
             else
               (case simple_escape e of
                  None \<Rightarrow> None
                | Some u \<Rightarrow> prepend (of_char u) (lex_string cs')))
      else if (of_char c :: nat) < 32 then None
      else prepend (of_char c) (lex_string cs))"

text \<open>
  A number literal is an optional minus sign, an integer part without a leading zero, an
  optional fraction and an optional exponent. Each part returns its text and the input
  that follows it.
\<close>

definition lex_digits :: "string \<Rightarrow> (string \<times> string) option" where
  "lex_digits cs =
     (let ds = takeWhile is_digit cs
      in if ds = [] then None else Some (ds, dropWhile is_digit cs))"

definition lex_int :: "string \<Rightarrow> (string \<times> string) option" where
  "lex_int cs =
     (case cs of
        [] \<Rightarrow> None
      | c # r \<Rightarrow> if c = CHR ''0'' then Some (''0'', r) else lex_digits cs)"

definition lex_frac :: "string \<Rightarrow> (string \<times> string) option" where
  "lex_frac cs =
     (case cs of
        [] \<Rightarrow> Some ([], cs)
      | c # r \<Rightarrow>
          if c = CHR ''.'' then
            (case lex_digits r of None \<Rightarrow> None | Some (ds, rest) \<Rightarrow> Some (c # ds, rest))
          else Some ([], cs))"

definition lex_exp :: "string \<Rightarrow> (string \<times> string) option" where
  "lex_exp cs =
     (case cs of
        [] \<Rightarrow> Some ([], cs)
      | c # r \<Rightarrow>
          if c = CHR ''e'' \<or> c = CHR ''E'' then
            (let sg = (case r of
                         [] \<Rightarrow> []
                       | s # _ \<Rightarrow> if s = CHR ''+'' \<or> s = CHR ''-'' then [s] else [])
             in case lex_digits (drop (length sg) r) of
                  None \<Rightarrow> None
                | Some (ds, rest) \<Rightarrow> Some (c # sg @ ds, rest))
          else Some ([], cs))"

definition lex_number :: "string \<Rightarrow> (string \<times> string) option" where
  "lex_number cs =
     (let sg = (case cs of [] \<Rightarrow> [] | s # _ \<Rightarrow> if s = CHR ''-'' then [s] else [])
      in case lex_int (drop (length sg) cs) of
           None \<Rightarrow> None
         | Some (ip, r1) \<Rightarrow>
             (case lex_frac r1 of
                None \<Rightarrow> None
              | Some (fp, r2) \<Rightarrow>
                  (case lex_exp r2 of
                     None \<Rightarrow> None
                   | Some (ep, r3) \<Rightarrow> Some (sg @ ip @ fp @ ep, r3))))"

datatype token =
    T_LBrace | T_RBrace | T_LBracket | T_RBracket | T_Colon | T_Comma
  | T_String "nat list" | T_Number string | T_True | T_False | T_Null

definition lex_keyword :: "string \<Rightarrow> token \<Rightarrow> string \<Rightarrow> (token \<times> string) option" where
  "lex_keyword kw t cs =
     (if take (length kw) cs = kw then Some (t, drop (length kw) cs) else None)"

text \<open>\<open>next_token c cs\<close> reads the token that starts with the character \<open>c\<close>.\<close>

definition next_token :: "char \<Rightarrow> string \<Rightarrow> (token \<times> string) option" where
  "next_token c cs =
     (if c = CHR ''{'' then Some (T_LBrace, cs)
      else if c = CHR ''}'' then Some (T_RBrace, cs)
      else if c = CHR ''['' then Some (T_LBracket, cs)
      else if c = CHR '']'' then Some (T_RBracket, cs)
      else if c = CHR '':'' then Some (T_Colon, cs)
      else if c = CHR '','' then Some (T_Comma, cs)
      else if c = dquote then
        (case lex_string cs of None \<Rightarrow> None | Some (s, rest) \<Rightarrow> Some (T_String s, rest))
      else if c = CHR ''-'' \<or> is_digit c then
        (case lex_number (c # cs) of None \<Rightarrow> None | Some (n, rest) \<Rightarrow> Some (T_Number n, rest))
      else if c = CHR ''t'' then lex_keyword ''rue'' T_True cs
      else if c = CHR ''f'' then lex_keyword ''alse'' T_False cs
      else if c = CHR ''n'' then lex_keyword ''ull'' T_Null cs
      else None)"

text \<open>
  The tokenizer skips white space between tokens. Every token consumes at least the
  character it starts with, which is the termination argument.
\<close>

function tokenize :: "string \<Rightarrow> token list option" where
  "tokenize [] = Some []"
| "tokenize (c # cs) =
     (if is_ws c then tokenize cs
      else
        (case next_token c cs of
           None \<Rightarrow> None
         | Some (t, rest) \<Rightarrow>
             (case tokenize rest of None \<Rightarrow> None | Some ts \<Rightarrow> Some (t # ts))))"
  by pat_completeness auto
termination
proof -
  have pre: "\<exists>s'. r = Some (s', rest)" if "prepend c r = Some (s, rest)" for c r s rest
    using that by (auto simp: prepend_def split: option.splits)
  have str: "length rest \<le> length cs" if "lex_string cs = Some (s, rest)" for cs s rest
    using that
  proof (induction cs arbitrary: s rest rule: lex_string.induct)
    case 1
    then show ?case by simp
  next
    case (2 c cs)
    show ?case
    proof (cases "c = dquote")
      case True
      with "2.prems" show ?thesis by simp
    next
      case nq: False
      show ?thesis
      proof (cases "c = backslash")
        case False
        with nq "2.prems" obtain s' where "lex_string cs = Some (s', rest)"
          by (auto split: if_splits dest: pre)
        with "2.IH"(3) nq False "2.prems" show ?thesis
          by (fastforce split: if_splits)
      next
        case bs: True
        show ?thesis
        proof (cases cs)
          case Nil
          with nq bs "2.prems" show ?thesis by simp
        next
          case (Cons e cs')
          show ?thesis
          proof (cases "e = CHR ''u''")
            case False
            with nq bs Cons "2.prems" obtain u s' where
              "simple_escape e = Some u" "lex_string cs' = Some (s', rest)"
              by (auto split: option.splits dest: pre)
            with "2.IH"(2) nq bs Cons False show ?thesis by fastforce
          next
            case u: True
            with nq bs Cons "2.prems" obtain h3 h2 h1 h0 cs'' uu s' where
              "cs' = h3 # h2 # h1 # h0 # cs''"
              "unicode_escape h3 h2 h1 h0 = Some uu" "lex_string cs'' = Some (s', rest)"
              by (auto split: option.splits list.splits dest: pre)
            with "2.IH"(1) nq bs Cons u show ?thesis by fastforce
          qed
        qed
      qed
    qed
  qed
  have digits: "length rest < length cs" if "lex_digits cs = Some (ds, rest)" for cs ds rest
  proof -
    from that have "takeWhile is_digit cs \<noteq> []" and "rest = dropWhile is_digit cs"
      by (auto simp: lex_digits_def Let_def split: if_splits)
    moreover have "length cs = length (takeWhile is_digit cs) + length (dropWhile is_digit cs)"
      by (metis length_append takeWhile_dropWhile_id)
    ultimately show ?thesis by simp
  qed
  have int: "length rest < length cs" if "lex_int cs = Some (ds, rest)" for cs ds rest
    using that by (auto simp: lex_int_def split: list.splits if_splits dest: digits)
  have frac: "length rest \<le> length cs" if "lex_frac cs = Some (ds, rest)" for cs ds rest
    using that
    by (auto simp: lex_frac_def split: list.splits if_splits option.splits dest: digits)
  have exp: "length rest \<le> length cs" if "lex_exp cs = Some (ds, rest)" for cs ds rest
    using that
    by (fastforce simp: lex_exp_def Let_def split: list.splits if_splits option.splits
        dest: digits)
  have number: "length rest < length cs"
    if ln: "lex_number cs = Some (n, rest)" for cs n rest
  proof -
    from ln obtain sg ip r1 fp r2 ep where
      i: "lex_int (drop (length (sg :: string)) cs) = Some (ip, r1)" and
      f: "lex_frac r1 = Some (fp, r2)" and e: "lex_exp r2 = Some (ep, rest)"
      by (auto simp: lex_number_def Let_def split: option.splits)
    from int [OF i] have "length r1 < length cs" by simp
    with frac [OF f] exp [OF e] show ?thesis by simp
  qed
  have keyword: "length rest \<le> length cs"
    if "lex_keyword kw t cs = Some (t', rest)" for kw t cs t' rest
    using that by (auto simp: lex_keyword_def split: if_splits)
  have tok: "length rest \<le> length cs"
    if nt: "next_token c cs = Some (t, rest)" for c cs t rest
  proof -
    consider (string) s where "lex_string cs = Some (s, rest)"
      | (num) n where "lex_number (c # cs) = Some (n, rest)"
      | (kw) kw t' where "lex_keyword kw t' cs = Some (t, rest)"
      | (punct) "rest = cs"
      using nt by (auto simp: next_token_def split: if_splits option.splits)
    then show ?thesis
    proof cases
      case string
      then show ?thesis by (rule str)
    next
      case num
      from number [OF this] show ?thesis by simp
    next
      case kw
      then show ?thesis by (rule keyword)
    next
      case punct
      then show ?thesis by simp
    qed
  qed
  show ?thesis
    by (relation "measure length") (auto dest: tok)
qed

subsection \<open>The grammar of values\<close>

text \<open>
  Assigning a member to an object: a key that is present keeps its position and takes the
  new value, a new key is appended; a repeated key of the input keeps its last value.
\<close>

fun obj_set :: "('u list \<times> 'u json) list \<Rightarrow> 'u list \<Rightarrow> 'u json \<Rightarrow> ('u list \<times> 'u json) list" where
  "obj_set [] k v = [(k, v)]"
| "obj_set ((k', v') # ms) k v =
     (if k' = k then (k', v) # ms else (k', v') # obj_set ms k v)"

text \<open>
  The parser is a pushdown automaton over the tokens. A frame of the stack is an array
  under construction, or an object under construction with the key whose value is being
  read. The state says what may come next.
\<close>

datatype frame =
    F_Arr "nat json list"
  | F_Obj "(nat list \<times> nat json) list" "nat list"

datatype pstate =
    S_Value "frame list"
  | S_ArrFirst "frame list"
  | S_ArrNext "nat json list" "frame list"
  | S_ObjFirst "frame list"
  | S_ObjKey "(nat list \<times> nat json) list" "frame list"
  | S_ObjColon "(nat list \<times> nat json) list" "nat list" "frame list"
  | S_ObjNext "(nat list \<times> nat json) list" "frame list"
  | S_Done "nat json"

fun complete :: "nat json \<Rightarrow> frame list \<Rightarrow> pstate" where
  "complete v [] = S_Done v"
| "complete v (F_Arr es # st) = S_ArrNext (es @ [v]) st"
| "complete v (F_Obj ms k # st) = S_ObjNext (obj_set ms k v) st"

fun start_value :: "token \<Rightarrow> frame list \<Rightarrow> pstate option" where
  "start_value T_LBrace st = Some (S_ObjFirst st)"
| "start_value T_LBracket st = Some (S_ArrFirst st)"
| "start_value (T_String s) st = Some (complete (JStr s) st)"
| "start_value (T_Number n) st = Some (complete (JNum n) st)"
| "start_value T_True st = Some (complete (JBool True) st)"
| "start_value T_False st = Some (complete (JBool False) st)"
| "start_value T_Null st = Some (complete JNull st)"
| "start_value _ st = None"

fun pstep :: "pstate \<Rightarrow> token \<Rightarrow> pstate option" where
  "pstep (S_Value st) t = start_value t st"
| "pstep (S_ArrFirst st) t =
     (if t = T_RBracket then Some (complete (JArr []) st) else start_value t (F_Arr [] # st))"
| "pstep (S_ArrNext es st) t =
     (if t = T_Comma then Some (S_Value (F_Arr es # st))
      else if t = T_RBracket then Some (complete (JArr es) st)
      else None)"
| "pstep (S_ObjFirst st) t =
     (case t of
        T_RBrace \<Rightarrow> Some (complete (JObj []) st)
      | T_String k \<Rightarrow> Some (S_ObjColon [] k st)
      | _ \<Rightarrow> None)"
| "pstep (S_ObjKey ms st) t =
     (case t of T_String k \<Rightarrow> Some (S_ObjColon ms k st) | _ \<Rightarrow> None)"
| "pstep (S_ObjColon ms k st) t =
     (if t = T_Colon then Some (S_Value (F_Obj ms k # st)) else None)"
| "pstep (S_ObjNext ms st) t =
     (if t = T_Comma then Some (S_ObjKey ms st)
      else if t = T_RBrace then Some (complete (JObj ms) st)
      else None)"
| "pstep (S_Done v) t = None"

fun prun :: "pstate \<Rightarrow> token list \<Rightarrow> pstate option" where
  "prun s [] = Some s"
| "prun s (t # ts) = (case pstep s t of None \<Rightarrow> None | Some s' \<Rightarrow> prun s' ts)"

text \<open>
  \<^verbatim>\<open>JSON.parse(text)\<close>: \<open>Some v\<close> when the whole text is one JSON value, \<open>None\<close> when the
  built-in throws a \<^verbatim>\<open>SyntaxError\<close>.
\<close>

definition JSON_parse :: "string \<Rightarrow> nat json option" where
  "JSON_parse str =
     (case tokenize str of
        None \<Rightarrow> None
      | Some ts \<Rightarrow>
          (case prun (S_Value []) ts of
             Some (S_Done v) \<Rightarrow> Some v
           | _ \<Rightarrow> None))"

subsection \<open>\<^verbatim>\<open>JSON.stringify\<close>\<close>

definition hex_char :: "nat \<Rightarrow> char" where
  "hex_char n = ''0123456789abcdef'' ! (n mod 16)"

definition quote_char :: "char \<Rightarrow> string" where
  "quote_char c =
     (if c = dquote then [backslash, dquote]
      else if c = backslash then [backslash, backslash]
      else if c = CHR 0x08 then [backslash, CHR ''b'']
      else if c = CHR 0x0C then [backslash, CHR ''f'']
      else if c = CHR 0x0A then [backslash, CHR ''n'']
      else if c = CHR 0x0D then [backslash, CHR ''r'']
      else if c = CHR 0x09 then [backslash, CHR ''t'']
      else if (of_char c :: nat) < 32 then
        backslash # ''u00'' @ [hex_char (of_char c div 16), hex_char (of_char c)]
      else [c])"

definition quote :: "string \<Rightarrow> string" where
  "quote s = dquote # concat (map quote_char s) @ [dquote]"

fun join :: "string \<Rightarrow> string list \<Rightarrow> string" where
  "join sep [] = []"
| "join sep [x] = x"
| "join sep (x # y # ys) = x @ sep @ join sep (y # ys)"

text \<open>\<^verbatim>\<open>JSON.stringify(value)\<close>, and \<^verbatim>\<open>JSON.stringify(value, null, gap)\<close> at an indentation.\<close>

fun JSON_stringify :: "char json \<Rightarrow> string" where
  "JSON_stringify JNull = ''null''"
| "JSON_stringify (JBool b) = (if b then ''true'' else ''false'')"
| "JSON_stringify (JNum n) = n"
| "JSON_stringify (JStr s) = quote s"
| "JSON_stringify (JArr vs) = ''['' @ join '','' (map JSON_stringify vs) @ '']''"
| "JSON_stringify (JObj ms) =
     ''{'' @ join '','' (map (\<lambda>(k, v). quote k @ '':'' @ JSON_stringify v) ms) @ ''}''"

fun JSON_stringify_indent :: "nat \<Rightarrow> nat \<Rightarrow> char json \<Rightarrow> string" where
  "JSON_stringify_indent gap ind (JArr vs) =
     (if vs = [] then ''[]''
      else ''['' @ CHR 0x0A # replicate (ind + gap) CHR '' ''
        @ join ('','' @ CHR 0x0A # replicate (ind + gap) CHR '' '')
            (map (JSON_stringify_indent gap (ind + gap)) vs)
        @ CHR 0x0A # replicate ind CHR '' '' @ '']'')"
| "JSON_stringify_indent gap ind (JObj ms) =
     (if ms = [] then ''{}''
      else ''{'' @ CHR 0x0A # replicate (ind + gap) CHR '' ''
        @ join ('','' @ CHR 0x0A # replicate (ind + gap) CHR '' '')
            (map (\<lambda>(k, v). quote k @ '': '' @ JSON_stringify_indent gap (ind + gap) v) ms)
        @ CHR 0x0A # replicate ind CHR '' '' @ ''}'')"
| "JSON_stringify_indent gap ind v = JSON_stringify v"

subsection \<open>Truthiness and the operator \<^verbatim>\<open>||\<close>\<close>

text \<open>
  A number is falsy when it is zero, that is when its literal has no digit other than
  \<^verbatim>\<open>0\<close> before the exponent. An absent (\<^verbatim>\<open>undefined\<close>) operand is \<open>None\<close>.
\<close>

definition num_truthy :: "string \<Rightarrow> bool" where
  "num_truthy n =
     list_ex (\<lambda>c. c \<in> set ''123456789'')
       (takeWhile (\<lambda>c. \<not> (c = CHR ''e'' \<or> c = CHR ''E'')) n)"

fun truthy :: "'u json \<Rightarrow> bool" where
  "truthy JNull = False"
| "truthy (JBool b) = b"
| "truthy (JNum n) = num_truthy n"
| "truthy (JStr s) = (s \<noteq> [])"
| "truthy (JArr vs) = True"
| "truthy (JObj ms) = True"

definition str_or :: "string option \<Rightarrow> string \<Rightarrow> string" where
  "str_or v d = (case v of None \<Rightarrow> d | Some s \<Rightarrow> if s = [] then d else s)"

definition json_or :: "'u json option \<Rightarrow> 'u json \<Rightarrow> 'u json" where
  "json_or v d = (case v of None \<Rightarrow> d | Some x \<Rightarrow> if truthy x then x else d)"

section \<open>The regular expression of the response interpreter\<close>

text \<open>
  Both interpreting operations call \<^verbatim>\<open>content.match\<close> with the same pattern: an opening
  brace, then any characters, as many as possible, then a closing brace. The matcher tries
  the start positions from the left. At a start position that holds an opening brace,
  \<open>star_then_close k cs\<close> lets the star take \<open>k\<close> characters of the rest \<open>cs\<close>, the longest
  candidate first, and gives one character back each time no closing brace follows.
\<close>

fun star_then_close :: "nat \<Rightarrow> string \<Rightarrow> string option" where
  "star_then_close 0 cs =
     (case cs of [] \<Rightarrow> None | c # _ \<Rightarrow> if c = CHR ''}'' then Some [c] else None)"
| "star_then_close (Suc k) cs =
     (case drop (Suc k) cs of
        [] \<Rightarrow> star_then_close k cs
      | c # _ \<Rightarrow> if c = CHR ''}'' then Some (take (Suc k) cs @ [c]) else star_then_close k cs)"

fun match_braces :: "string \<Rightarrow> string option" where
  "match_braces [] = None"
| "match_braces (c # cs) =
     (if c = CHR ''{'' then
        (case star_then_close (length cs) cs of
           None \<Rightarrow> match_braces cs
         | Some m \<Rightarrow> Some (c # m))
      else match_braces cs)"

text \<open>
  The span as the specification words it: drop what stands before the first opening brace,
  then drop what stands after the last closing brace.
\<close>

definition first_to_last_brace :: "string \<Rightarrow> string option" where
  "first_to_last_brace str =
     (let from_open = dropWhile (\<lambda>c. c \<noteq> CHR ''{'') str;
          span = rev (dropWhile (\<lambda>c. c \<noteq> CHR ''}'') (rev from_open))
      in if span = [] then None else Some span)"

section \<open>Errors, log records and the HTTP transport\<close>

text \<open>
  A thrown value, with the properties the service reads: \<^verbatim>\<open>name\<close>, \<^verbatim>\<open>message\<close>, \<^verbatim>\<open>code\<close> and
  \<^verbatim>\<open>stack\<close>, and the two that \<^verbatim>\<open>AppError\<close> adds.
\<close>

record js_error =
  err_name :: string
  err_message :: string
  err_code :: "string option"
  err_stack :: string
  err_statusCode :: "nat option"
  err_isOperational :: "bool option"

text \<open>
  \<^verbatim>\<open>createError(message, statusCode)\<close> of the error handler middleware. The stack of a new
  error is its header line followed by the frames of the call, which the runtime supplies.
\<close>

definition createError :: "string \<Rightarrow> string \<Rightarrow> nat \<Rightarrow> js_error" where
  "createError frames message statusCode =
     \<lparr>err_name = ''Error'', err_message = message, err_code = None,
      err_stack = ''Error: '' @ message @ frames,
      err_statusCode = Some statusCode, err_isOperational = Some True\<rparr>"

text \<open>A log record is a call of the logger: the level, the message and the metadata.\<close>

datatype log_level = Log_info | Log_warn | Log_error

datatype log_value = L_Str string | L_Num nat | L_Undefined

datatype log_meta = No_meta | Fields "(string \<times> log_value) list" | Error_object js_error

record log_record =
  log_level :: log_level
  log_message :: string
  log_meta :: log_meta

record http_request =
  http_url :: string
  http_method :: string
  http_headers :: "(string \<times> string) list"
  http_body :: string

text \<open>
  \<^verbatim>\<open>OpenRouterResponse\<close>. A part is optional where the service guards its access (an
  optional chain or a default), and required where the interface declares it and the
  service reads it unguarded.
\<close>

record choice_message =
  reply_role :: string
  reply_content :: "string option"

record choice =
  choice_index :: nat
  choice_message :: "choice_message option"
  finish_reason :: string

record usage =
  prompt_tokens :: nat
  completion_tokens :: nat
  total_tokens :: "nat option"

record OpenRouterResponse =
  or_id :: string
  or_object :: string
  or_created :: nat
  or_model :: string
  choices :: "choice list"
  usage :: "usage option"

text \<open>
  The response object of \<^verbatim>\<open>fetch\<close>: the status line, and what reading the body gives,
  as text (\<^verbatim>\<open>response.text()\<close>) and as a decoded completion (\<^verbatim>\<open>response.json()\<close>); either
  read may reject. \<^verbatim>\<open>response.ok\<close> holds for the statuses 200 to 299.
\<close>

record http_response =
  resp_status :: nat
  resp_statusText :: string
  resp_text :: "js_error + string"
  resp_json :: "js_error + OpenRouterResponse"

definition response_ok :: "http_response \<Rightarrow> bool" where
  "response_ok response = (200 \<le> resp_status response \<and> resp_status response \<le> 299)"

text \<open>
  The outcome of the \<^verbatim>\<open>fetch\<close> call. The abort that the 30000 millisecond timer of
  \<^verbatim>\<open>makeRequest\<close> triggers is the outcome \<open>Rejected err\<close> with the name \<^verbatim>\<open>AbortError\<close>;
  the time that the call and the read of the body take is added below, with the timer.
\<close>

datatype fetch_outcome = Rejected js_error | Resolved http_response

record runtime =
  fetch :: "http_request \<Rightarrow> fetch_outcome"
  stack_frames :: "nat \<Rightarrow> string"

record world =
  logs :: "log_record list"
  sent :: "http_request list"

definition emit :: "log_level \<Rightarrow> string \<Rightarrow> log_meta \<Rightarrow> world \<Rightarrow> world" where
  "emit lvl msg meta w =
     w\<lparr>logs := logs w @ [\<lparr>log_level = lvl, log_message = msg, log_meta = meta\<rparr>]\<rparr>"

section \<open>The service\<close>

text \<open>The fields of an \<^verbatim>\<open>AIService\<close>, and the arguments of its operations.\<close>

record AIService =
  apiKey :: string
  model :: string
  baseUrl :: string

record chat_message =
  msg_role :: string
  msg_content :: string

record request_options =
  opt_maxTokens :: "string option"
  opt_temperature :: "string option"

record AIPromptRequest =
  ai_prompt :: string
  ai_context :: "string option"
  ai_maxTokens :: "string option"
  ai_temperature :: "string option"

record APIGenerationRequest =
  gen_description :: string
  gen_method :: "string option"
  gen_inputSchema :: "char json option"
  gen_outputSchema :: "char json option"


subsection \<open>\<^verbatim>\<open>makeRequest\<close>\<close>

text \<open>
  The body of the request is built from the model and the messages alone; the second
  argument of \<^verbatim>\<open>makeRequest\<close>, the options, is not read.
\<close>

definition message_json :: "chat_message \<Rightarrow> char json" where
  "message_json m = JObj [(''role'', JStr (msg_role m)), (''content'', JStr (msg_content m))]"

definition requestBody :: "AIService \<Rightarrow> chat_message list \<Rightarrow> char json" where
  "requestBody svc messages =
     JObj [(''model'', JStr (model svc)), (''messages'', JArr (map message_json messages))]"

definition completions_url :: "AIService \<Rightarrow> string" where
  "completions_url svc = baseUrl svc @ ''/chat/completions''"

definition fetch_request :: "AIService \<Rightarrow> chat_message list \<Rightarrow> http_request" where
  "fetch_request svc messages =
     \<lparr>http_url = completions_url svc,
      http_method = ''POST'',
      http_headers =
        [(''Authorization'', ''Bearer '' @ apiKey svc),
         (''Content-Type'', ''application/json''),
         (''HTTP-Referer'', ''http://localhost:3001''),
         (''X-Title'', ''SI-AGENT'')],
      http_body = JSON_stringify (requestBody svc messages)\<rparr>"

definition used_tokens :: "OpenRouterResponse \<Rightarrow> nat" where
  "used_tokens data =
     (case usage data of
        None \<Rightarrow> 0
      | Some u \<Rightarrow> (case total_tokens u of None \<Rightarrow> 0 | Some n \<Rightarrow> n))"

text \<open>
  The \<^verbatim>\<open>try\<close> block: log the request, call \<^verbatim>\<open>fetch\<close>, and either throw on a status that is
  not a success (after logging the body text), or decode and return the completion.
\<close>

definition makeRequest_try ::
  "runtime \<Rightarrow> AIService \<Rightarrow> chat_message list \<Rightarrow> world \<Rightarrow> (js_error + OpenRouterResponse) \<times> world" where
  "makeRequest_try rt svc messages w =
     (let w1 = emit Log_info ''Making OpenRouter API request''
                 (Fields
                    [(''url'', L_Str (completions_url svc)),
                     (''model'', L_Str (model svc)),
                     (''baseUrl'', L_Str (baseUrl svc)),
                     (''messagesCount'', L_Num (length messages)),
                     (''requestBody'', L_Str (JSON_stringify_indent 2 0 (requestBody svc messages)))])
                 w;
          request = fetch_request svc messages;
          w2 = w1\<lparr>sent := sent w1 @ [request]\<rparr>
      in case fetch rt request of
           Rejected err \<Rightarrow> (Inl err, w2)
         | Resolved response \<Rightarrow>
             if \<not> response_ok response then
               (case resp_text response of
                  Inl err \<Rightarrow> (Inl err, w2)
                | Inr errorData \<Rightarrow>
                    (Inl (createError (stack_frames rt 101)
                            (''AI service error: '' @ resp_statusText response)
                            (resp_status response)),
                     emit Log_error ''OpenRouter API error:''
                       (Fields [(''status'', L_Num (resp_status response)),
                                (''error'', L_Str errorData)])
                       w2))
             else
               (case resp_json response of
                  Inl err \<Rightarrow> (Inl err, w2)
                | Inr data \<Rightarrow>
                    (Inr data,
                     emit Log_info ''OpenRouter API call successful''
                       (Fields [(''model'', L_Str (model svc)),
                                (''tokens'', L_Num (used_tokens data))])
                       w2)))"

text \<open>
  The \<^verbatim>\<open>catch\<close> block receives whatever the \<^verbatim>\<open>try\<close> block threw, the error of line 101
  included: it chooses the message, logs, and throws a new error with the status 500.
\<close>

definition errorMessage_of :: "js_error \<Rightarrow> string" where
  "errorMessage_of err =
     (if err_name err = ''AbortError'' then
        ''Request timeout - OpenRouter API took too long to respond''
      else if err_code err = Some ''ENOTFOUND'' \<or> err_code err = Some ''ECONNREFUSED'' then
        ''Network error - Cannot reach OpenRouter API''
      else err_message err)"

definition makeRequest ::
  "runtime \<Rightarrow> AIService \<Rightarrow> chat_message list \<Rightarrow> request_options \<Rightarrow> world
     \<Rightarrow> (js_error + OpenRouterResponse) \<times> world" where
  "makeRequest rt svc messages options w =
     (case makeRequest_try rt svc messages w of
        (Inr data, w') \<Rightarrow> (Inr data, w')
      | (Inl err, w') \<Rightarrow>
          (Inl (createError (stack_frames rt 130)
                  (''Failed to communicate with AI service: '' @ errorMessage_of err) 500),
           emit Log_error ''AI service request failed:''
             (Fields
                [(''message'', L_Str (errorMessage_of err)),
                 (''originalError'', L_Str (err_message err)),
                 (''errorName'', L_Str (err_name err)),
                 (''errorCode'', (case err_code err of None \<Rightarrow> L_Undefined | Some c \<Rightarrow> L_Str c)),
                 (''stack'', L_Str (err_stack err)),
                 (''apiKey'', L_Str (if apiKey svc = [] then ''NOT_SET'' else ''SET'')),
                 (''model'', L_Str (model svc)),
                 (''baseUrl'', L_Str (baseUrl svc))])
             w'))"

subsection \<open>The timer of \<^verbatim>\<open>makeRequest\<close>\<close>

text \<open>
  How long the upstream takes. A delay is the number of milliseconds after which a promise
  settles when it is left alone, or \<open>Never\<close>. \<open>fetch_delay\<close> is counted from the call of
  \<^verbatim>\<open>fetch\<close> (line 84), \<open>body_delay\<close> from the read of the body, \<^verbatim>\<open>response.text()\<close> of line 99
  or \<^verbatim>\<open>response.json()\<close> of line 104. \<open>abort_message\<close> is the message that the library
  gives the error of an aborted request.
\<close>

datatype delay = After nat | Never

record pace =
  fetch_delay :: delay
  body_delay :: delay
  abort_message :: string

text \<open>
  Line 82 sets a timer of 30000 milliseconds that aborts the request, and line 96 clears
  it; line 96 is reached when \<^verbatim>\<open>fetch\<close> has resolved. So the timer fires exactly when
  \<^verbatim>\<open>fetch\<close> has not settled before 30000 milliseconds have passed.
\<close>

definition timeout_ms :: nat where
  "timeout_ms = 30000"

definition timer_fires :: "delay \<Rightarrow> bool" where
  "timer_fires d = (case d of After t \<Rightarrow> timeout_ms \<le> t | Never \<Rightarrow> True)"

text \<open>The error with which \<^verbatim>\<open>fetch\<close> rejects when its signal aborts the request.\<close>

definition AbortError :: "string \<Rightarrow> string \<Rightarrow> js_error" where
  "AbortError frames message =
     \<lparr>err_name = ''AbortError'', err_message = message, err_code = None,
      err_stack = ''AbortError: '' @ message @ frames,
      err_statusCode = None, err_isOperational = None\<rparr>"

text \<open>
  \<^verbatim>\<open>makeRequest\<close> with the time it takes. The result \<open>None\<close> is a promise that never settles.
  When the timer fires, \<^verbatim>\<open>fetch\<close> rejects with the abort error and the \<^verbatim>\<open>catch\<close> block runs.
  When \<^verbatim>\<open>fetch\<close> rejects by itself before that, the \<^verbatim>\<open>catch\<close> block runs as well. When
  \<^verbatim>\<open>fetch\<close> resolves before that, the timer is cleared, and the function awaits the read of
  the body with no timer left: it continues when the read settles, and not at all when
  the read never does.
\<close>

definition makeRequest_paced ::
  "pace \<Rightarrow> runtime \<Rightarrow> AIService \<Rightarrow> chat_message list \<Rightarrow> request_options \<Rightarrow> world
     \<Rightarrow> ((js_error + OpenRouterResponse) \<times> world) option" where
  "makeRequest_paced p rt svc messages options w =
     (if timer_fires (fetch_delay p) then
        Some (makeRequest
                (rt\<lparr>fetch := \<lambda>request.
                       Rejected (AbortError (stack_frames rt 84) (abort_message p))\<rparr>)
                svc messages options w)
      else
        (case fetch rt (fetch_request svc messages) of
           Rejected err \<Rightarrow> Some (makeRequest rt svc messages options w)
         | Resolved response \<Rightarrow>
             (case body_delay p of
                Never \<Rightarrow> None
              | After t \<Rightarrow> Some (makeRequest rt svc messages options w))))"

subsection \<open>\<^verbatim>\<open>generateResponse\<close>\<close>

definition first_content :: "OpenRouterResponse \<Rightarrow> string option" where
  "first_content data =
     (case choices data of
        [] \<Rightarrow> None
      | c # _ \<Rightarrow> (case choice_message c of None \<Rightarrow> None | Some m \<Rightarrow> reply_content m))"

definition chat_messages :: "AIPromptRequest \<Rightarrow> chat_message list" where
  "chat_messages request =
     [\<lparr>msg_role = ''system'',
       msg_content = ''You are a helpful AI assistant for the SI-AGENT platform. ''
         @ ''Provide clear, concise, and accurate responses.''\<rparr>,
      \<lparr>msg_role = ''user'',
       msg_content =
         (case ai_context request of
            None \<Rightarrow> ai_prompt request
          | Some c \<Rightarrow>
              if c = [] then ai_prompt request
              else ''Context: '' @ c @ ''\<newline>\<newline>Prompt: '' @ ai_prompt request)\<rparr>]"

definition generateResponse ::
  "runtime \<Rightarrow> AIService \<Rightarrow> AIPromptRequest \<Rightarrow> world \<Rightarrow> (js_error + string) \<times> world" where
  "generateResponse rt svc request w =
     (case makeRequest rt svc (chat_messages request)
             \<lparr>opt_maxTokens = ai_maxTokens request, opt_temperature = ai_temperature request\<rparr> w of
        (Inr data, w') \<Rightarrow> (Inr (str_or (first_content data) ''No response generated''), w')
      | (Inl err, w') \<Rightarrow> (Inl err, emit Log_error ''Generate response error:'' (Error_object err) w'))"

subsection \<open>\<^verbatim>\<open>generateApiCode\<close>\<close>

definition codegen_systemPrompt :: string where
  \<open>codegen_systemPrompt =
     ''You are an expert API developer. Generate Express.js API code based on user descriptions.\<newline>''
     @ ''\<newline>''
     @ ''Return a JSON response with the following structure:\<newline>''
     @ ''{\<newline>''
     @ ''  "endpoint": "/api/example",\<newline>''
     @ ''  "method": "GET|POST|PUT|DELETE",\<newline>''
     @ ''  "controllerCode": "// Express controller code",\<newline>''
     @ ''  "serviceCode": "// Business logic service code", \<newline>''
     @ ''  "schema": {\<newline>''
     @ ''    "input": { /* JSON schema for input */ },\<newline>''
     @ ''    "output": { /* JSON schema for output */ }\<newline>''
     @ ''  }\<newline>''
     @ ''}\<newline>''
     @ ''\<newline>''
     @ ''Make the code production-ready with proper error handling, validation, and TypeScript types.''\<close>

definition codegen_userPrompt :: "APIGenerationRequest \<Rightarrow> string" where
  "codegen_userPrompt request =
     ''Generate an API for: '' @ gen_description request @ ''\<newline>''
     @ ''\<newline>''
     @ (case gen_method request of
          None \<Rightarrow> []
        | Some m \<Rightarrow> if m = [] then [] else ''Preferred HTTP method: '' @ m) @ ''\<newline>''
     @ (case gen_inputSchema request of
          None \<Rightarrow> []
        | Some v \<Rightarrow>
            if truthy v then ''Input schema requirements: '' @ JSON_stringify v else []) @ ''\<newline>''
     @ (case gen_outputSchema request of
          None \<Rightarrow> []
        | Some v \<Rightarrow>
            if truthy v then ''Output schema requirements: '' @ JSON_stringify v else []) @ ''\<newline>''
     @ ''\<newline>''
     @ ''Please generate complete, working code that follows best practices.''"

definition codegen_messages :: "APIGenerationRequest \<Rightarrow> chat_message list" where
  "codegen_messages request =
     [\<lparr>msg_role = ''system'', msg_content = codegen_systemPrompt\<rparr>,
      \<lparr>msg_role = ''user'', msg_content = codegen_userPrompt request\<rparr>]"

definition codegen_fallback :: "APIGenerationRequest \<Rightarrow> string \<Rightarrow> nat json" where
  "codegen_fallback request content =
     widen
       (JObj
          [(''endpoint'', JStr ''/api/generated''),
           (''method'', JStr (str_or (gen_method request) ''GET'')),
           (''controllerCode'',
              JStr (''// Generated from: '' @ gen_description request @ ''\<newline>'' @ content)),
           (''serviceCode'', JStr ''// Service logic would go here''),
           (''schema'',
              JObj [(''input'', json_or (gen_inputSchema request) (JObj [])),
                    (''output'', json_or (gen_outputSchema request) (JObj []))])])"

definition generateApiCode ::
  "runtime \<Rightarrow> AIService \<Rightarrow> APIGenerationRequest \<Rightarrow> world \<Rightarrow> (js_error + nat json) \<times> world" where
  "generateApiCode rt svc request w =
     (case makeRequest rt svc (codegen_messages request)
             \<lparr>opt_maxTokens = Some ''2000'', opt_temperature = Some ''0.3''\<rparr> w of
        (Inl err, w') \<Rightarrow>
          (Inl err, emit Log_error ''Generate API code error:'' (Error_object err) w')
      | (Inr data, w') \<Rightarrow>
          (let content = str_or (first_content data) []
           in case match_braces content of
                None \<Rightarrow> (Inr (codegen_fallback request content), w')
              | Some jsonMatch \<Rightarrow>
                  (case JSON_parse jsonMatch of
                     Some parsed \<Rightarrow> (Inr parsed, w')
                   | None \<Rightarrow>
                       (Inr (codegen_fallback request content),
                        emit Log_warn ''Failed to parse AI response as JSON, returning raw content''
                          No_meta w'))))"

subsection \<open>\<^verbatim>\<open>parseApiPrompt\<close>\<close>

definition analysis_systemPrompt :: string where
  \<open>analysis_systemPrompt =
     ''Analyze API requests and return structured information as JSON:\<newline>''
     @ ''{\<newline>''
     @ ''  "intent": "Brief description of what the API should do",\<newline>''
     @ ''  "suggestedEndpoint": "/api/suggested-path",\<newline>''
     @ ''  "suggestedMethod": "GET|POST|PUT|DELETE",\<newline>''
     @ ''  "parameters": ["param1", "param2"],\<newline>''
     @ ''  "complexity": "simple|medium|complex"\<newline>''
     @ ''}''\<close>

definition analysis_messages :: "string \<Rightarrow> chat_message list" where
  "analysis_messages prompt =
     [\<lparr>msg_role = ''system'', msg_content = analysis_systemPrompt\<rparr>,
      \<lparr>msg_role = ''user'', msg_content = ''Analyze this API request: '' @ prompt\<rparr>]"

definition analysis_fallback :: "string \<Rightarrow> nat json" where
  "analysis_fallback prompt =
     widen
       (JObj
          [(''intent'', JStr (take 100 prompt)),
           (''suggestedEndpoint'', JStr ''/api/generated''),
           (''suggestedMethod'', JStr ''GET''),
           (''parameters'', JArr []),
           (''complexity'', JStr ''medium'')])"

definition parseApiPrompt ::
  "runtime \<Rightarrow> AIService \<Rightarrow> string \<Rightarrow> world \<Rightarrow> (js_error + nat json) \<times> world" where
  "parseApiPrompt rt svc prompt w =
     (case makeRequest rt svc (analysis_messages prompt)
             \<lparr>opt_maxTokens = Some ''500'', opt_temperature = Some ''0.2''\<rparr> w of
        (Inl err, w') \<Rightarrow>
          (Inl err, emit Log_error ''Parse API prompt error:'' (Error_object err) w')
      | (Inr data, w') \<Rightarrow>
          (let content = str_or (first_content data) []
           in case match_braces content of
                None \<Rightarrow> (Inr (analysis_fallback prompt), w')
              | Some jsonMatch \<Rightarrow>
                  (case JSON_parse jsonMatch of
                     Some parsed \<Rightarrow> (Inr parsed, w')
                   | None \<Rightarrow>
                       (Inr (analysis_fallback prompt),
                        emit Log_warn ''Failed to parse prompt analysis as JSON'' No_meta w'))))"

subsection \<open>\<^verbatim>\<open>testConnection\<close>\<close>




section \<open>Vocabulary of the statements\<close>

text \<open>
  The upstream answers the request for these messages with a success status and a body
  that decodes to \<open>data\<close>.
\<close>

definition upstream_replies ::
  "runtime \<Rightarrow> AIService \<Rightarrow> chat_message list \<Rightarrow> OpenRouterResponse \<Rightarrow> bool" where
  "upstream_replies rt svc messages data =
     (case fetch rt (fetch_request svc messages) of
        Rejected err \<Rightarrow> False
      | Resolved response \<Rightarrow> response_ok response \<and> resp_json response = Inr data)"

text \<open>
  The completion has no usable content: no choice, or a first choice without a message,
  without a content, or with the empty content.
\<close>

definition content_missing :: "OpenRouterResponse \<Rightarrow> bool" where
  "content_missing data =
     (case choices data of
        [] \<Rightarrow> True
      | c # cs \<Rightarrow>
          (case choice_message c of
             None \<Rightarrow> True
           | Some m \<Rightarrow> (case reply_content m of None \<Rightarrow> True | Some reply \<Rightarrow> reply = [])))"

text \<open>The interpretation of a reply falls back: no brace span, or a span that does not parse.\<close>

definition interpretation_fails :: "string \<Rightarrow> bool" where
  "interpretation_fails content =
     (case match_braces content of
        None \<Rightarrow> True
      | Some jsonMatch \<Rightarrow> JSON_parse jsonMatch = None)"

text \<open>A value is an object that has a member for each of the names.\<close>

definition has_fields :: "string list \<Rightarrow> nat json \<Rightarrow> bool" where
  "has_fields names v =
     (case v of
        JObj ms \<Rightarrow> list_all (\<lambda>k. map_of ms (map of_char k) \<noteq> None) names
      | _ \<Rightarrow> False)"

definition analysis_fields :: "string list" where
  "analysis_fields =
     [''intent'', ''suggestedEndpoint'', ''suggestedMethod'', ''parameters'', ''complexity'']"

definition codegen_fields :: "string list" where
  "codegen_fields = [''endpoint'', ''method'', ''controllerCode'', ''serviceCode'', ''schema'']"

text \<open>The records a call added to the log.\<close>

definition emitted :: "world \<Rightarrow> world \<Rightarrow> log_record list" where
  "emitted w w' = drop (length (logs w)) (logs w')"

section \<open>Example runs\<close>

text \<open>
  A configured service, an empty world, and three kinds of upstream: one that answers a
  completion, one that answers a status with a body text, one whose \<^verbatim>\<open>fetch\<close> rejects;
  further down a \<^verbatim>\<open>fetch\<close> that checks the headers it is given, and two paces of an
  upstream that stalls. The worked examples below run the operations against them.
\<close>

definition demo_service :: AIService where
  "demo_service =
     \<lparr>apiKey = ''sk-or-demo'', model = ''deepseek/deepseek-chat-v3.1:free'',
      baseUrl = ''https://openrouter.ai/api/v1''\<rparr>"

definition empty_world :: world where
  "empty_world = \<lparr>logs = [], sent = []\<rparr>"

definition reply_choice :: "string \<Rightarrow> choice" where
  "reply_choice reply =
     \<lparr>choice_index = 0,
      choice_message = Some \<lparr>reply_role = ''assistant'', reply_content = Some reply\<rparr>,
      finish_reason = ''stop''\<rparr>"

definition completion :: "choice list \<Rightarrow> OpenRouterResponse" where
  "completion cs =
     \<lparr>or_id = ''gen-1'', or_object = ''chat.completion'', or_created = 0,
      or_model = ''deepseek/deepseek-chat-v3.1:free'', choices = cs,
      usage = Some \<lparr>prompt_tokens = 12, completion_tokens = 3, total_tokens = Some 15\<rparr>\<rparr>"

definition invalid_json :: js_error where
  "invalid_json =
     \<lparr>err_name = ''FetchError'', err_message = ''invalid json response body'',
      err_code = None, err_stack = [], err_statusCode = None, err_isOperational = None\<rparr>"


definition upstream_answering :: "OpenRouterResponse \<Rightarrow> runtime" where
  "upstream_answering data =
     \<lparr>fetch = (\<lambda>request. Resolved
         \<lparr>resp_status = 200, resp_statusText = ''OK'', resp_text = Inr [],
          resp_json = Inr data\<rparr>),
      stack_frames = (\<lambda>line. [])\<rparr>"

definition upstream_status :: "nat \<Rightarrow> string \<Rightarrow> string \<Rightarrow> runtime" where
  "upstream_status code reason body =
     \<lparr>fetch = (\<lambda>request. Resolved
         \<lparr>resp_status = code, resp_statusText = reason, resp_text = Inr body,
          resp_json = Inl invalid_json\<rparr>),
      stack_frames = (\<lambda>line. [])\<rparr>"


text \<open>
  A \<^verbatim>\<open>fetch\<close> that checks the header values of the request before it sends anything, as
  \<^verbatim>\<open>node-fetch\<close> 2 does: a value is legal when each of its characters is a tab or a
  character from 32 on other than 127, and the call rejects with a \<^verbatim>\<open>TypeError\<close> that
  quotes the first value that is not legal. And a service whose key ends with a line
  feed, as the content of a file with a single line does.
\<close>

definition legal_header_value :: "string \<Rightarrow> bool" where
  "legal_header_value v =
     list_all
       (\<lambda>c. (of_char c :: nat) = 9
            \<or> (32 \<le> (of_char c :: nat) \<and> (of_char c :: nat) \<noteq> 127))
       v"

definition illegal_header :: "string \<Rightarrow> string \<Rightarrow> js_error" where
  "illegal_header frames v =
     \<lparr>err_name = ''TypeError'', err_message = v @ '' is not a legal HTTP header value'',
      err_code = None,
      err_stack = ''TypeError: '' @ v @ '' is not a legal HTTP header value'' @ frames,
      err_statusCode = None, err_isOperational = None\<rparr>"

definition header_checking :: "runtime \<Rightarrow> runtime" where
  "header_checking rt =
     rt\<lparr>fetch := \<lambda>request.
          (case find (\<lambda>h. \<not> legal_header_value (snd h)) (http_headers request) of
             None \<Rightarrow> fetch rt request
           | Some h \<Rightarrow> Rejected (illegal_header (stack_frames rt 84) (snd h)))\<rparr>"

definition key_with_line_feed :: AIService where
  "key_with_line_feed = demo_service\<lparr>apiKey := ''sk-or-demo\<newline>''\<rparr>"

text \<open>
  An upstream that sends the status line and the headers after one second and never
  finishes the body, and one that never answers at all.
\<close>

definition stalled_body :: pace where
  "stalled_body =
     \<lparr>fetch_delay = After 1000, body_delay = Never,
      abort_message = ''The user aborted a request.''\<rparr>"

definition stalled_fetch :: pace where
  "stalled_fetch =
     \<lparr>fetch_delay = Never, body_delay = Never,
      abort_message = ''The user aborted a request.''\<rparr>"

definition no_options :: request_options where
  "no_options = \<lparr>opt_maxTokens = None, opt_temperature = None\<rparr>"

definition analysis_options :: request_options where
  "analysis_options = \<lparr>opt_maxTokens = Some ''500'', opt_temperature = Some ''0.2''\<rparr>"

definition greeting :: "chat_message list" where
  "greeting = [\<lparr>msg_role = ''user'', msg_content = ''hi''\<rparr>]"

definition demo_generation :: APIGenerationRequest where
  "demo_generation =
     \<lparr>gen_description = ''list all books'', gen_method = None, gen_inputSchema = None,
      gen_outputSchema = None\<rparr>"

definition demo_post :: APIGenerationRequest where
  "demo_post =
     \<lparr>gen_description = ''create a book'', gen_method = Some ''POST'',
      gen_inputSchema = Some (JObj [(''type'', JStr ''object'')]), gen_outputSchema = None\<rparr>"

section \<open>The regular expression selects the first-to-last span\<close>

text \<open>
  The backtracking matcher finds the span that the two \<open>dropWhile\<close> passes cut out, and
  that span is characterised by its position in the text.
\<close>

lemma star_then_close_eq:
  "star_then_close k cs =
     (if CHR ''}'' \<in> set (take (Suc k) cs)
      then Some (rev (dropWhile (\<lambda>c. c \<noteq> CHR ''}'') (rev (take (Suc k) cs))))
      else None)"
proof (induction k)
  case 0
  then show ?case by (cases cs) auto
next
  case (Suc k)
  show ?case
  proof (cases "drop (Suc k) cs")
    case Nil
    then have "take (Suc (Suc k)) cs = take (Suc k) cs" by simp
    with Nil Suc show ?thesis by simp
  next
    case (Cons c r)
    then have len: "Suc k < length cs"
      by (metis drop_all list.distinct(1) not_less)
    with Cons have "cs ! Suc k = c"
      by (metis hd_drop_conv_nth list.sel(1))
    with len have "take (Suc (Suc k)) cs = take (Suc k) cs @ [c]"
      by (simp add: take_Suc_conv_app_nth)
    with Cons Suc show ?thesis by auto
  qed
qed

lemma match_braces_no_close: "CHR ''}'' \<notin> set cs \<Longrightarrow> match_braces cs = None"
  by (induction cs) (auto simp: star_then_close_eq dest: in_set_takeD)

lemma match_braces_first_to_last: "match_braces str = first_to_last_brace str"
proof (induction str)
  case Nil
  then show ?case by (simp add: first_to_last_brace_def)
next
  case (Cons c cs)
  show ?case
  proof (cases "c = CHR ''{''")
    case False
    with Cons show ?thesis by (simp add: first_to_last_brace_def)
  next
    case True
    show ?thesis
    proof (cases "CHR ''}'' \<in> set cs")
      case False
      then have "dropWhile (\<lambda>c. c \<noteq> CHR ''}'') (rev cs @ [c]) = dropWhile (\<lambda>c. c \<noteq> CHR ''}'') [c]"
        by (intro dropWhile_append2) auto
      with True False show ?thesis
        by (simp add: first_to_last_brace_def star_then_close_eq match_braces_no_close)
    next
      case close: True
      then have "dropWhile (\<lambda>c. c \<noteq> CHR ''}'') (rev cs @ [c])
                   = dropWhile (\<lambda>c. c \<noteq> CHR ''}'') (rev cs) @ [c]"
        by (intro dropWhile_append1 [where x = "CHR ''}''"]) auto
      with True close show ?thesis
        by (simp add: first_to_last_brace_def star_then_close_eq)
    qed
  qed
qed

lemma first_to_last_brace_Some_iff:
  "first_to_last_brace str = Some span \<longleftrightarrow>
     (\<exists>pre mid post.
        str = pre @ CHR ''{'' # mid @ CHR ''}'' # post \<and> span = CHR ''{'' # mid @ [CHR ''}'']
        \<and> CHR ''{'' \<notin> set pre \<and> CHR ''}'' \<notin> set post)"
proof
  assume a: "first_to_last_brace str = Some span"
  define pre where "pre = takeWhile (\<lambda>c. c \<noteq> CHR ''{'') str"
  define from_open where "from_open = dropWhile (\<lambda>c. c \<noteq> CHR ''{'') str"
  define post where "post = rev (takeWhile (\<lambda>c. c \<noteq> CHR ''}'') (rev from_open))"
  from a have span: "span = rev (dropWhile (\<lambda>c. c \<noteq> CHR ''}'') (rev from_open))"
    and ne: "span \<noteq> []"
    by (auto simp: first_to_last_brace_def Let_def from_open_def split: if_splits)
  have str: "str = pre @ from_open"
    by (simp add: pre_def from_open_def)
  have "rev from_open = rev post @ rev span"
    by (simp add: post_def span)
  then have fo: "from_open = span @ post"
    by (metis rev_append rev_rev_ident)
  have pre: "CHR ''{'' \<notin> set pre"
    unfolding pre_def by (auto dest: set_takeWhileD)
  have post: "CHR ''}'' \<notin> set post"
    unfolding post_def by (auto dest: set_takeWhileD)
  from ne have "dropWhile (\<lambda>c. c \<noteq> CHR ''}'') (rev from_open) \<noteq> []"
    by (simp add: span)
  then have "hd (dropWhile (\<lambda>c. c \<noteq> CHR ''}'') (rev from_open)) = CHR ''}''"
    using hd_dropWhile [of "\<lambda>c. c \<noteq> CHR ''}''" "rev from_open"] by simp
  with ne have last: "last span = CHR ''}''"
    by (simp add: span last_rev)
  from fo ne have "from_open \<noteq> []" by simp
  then have "hd from_open = CHR ''{''"
    unfolding from_open_def using hd_dropWhile [of "\<lambda>c. c \<noteq> CHR ''{''" str] by simp
  with fo ne have hd: "hd span = CHR ''{''" by simp
  from ne hd obtain r where r: "span = CHR ''{'' # r"
    by (cases span) auto
  with last have "r \<noteq> []" by auto
  with r last obtain mid where "span = CHR ''{'' # mid @ [CHR ''}'']"
    by (metis append_butlast_last_id last_ConsR)
  with str fo pre post show "\<exists>pre mid post.
        str = pre @ CHR ''{'' # mid @ CHR ''}'' # post \<and> span = CHR ''{'' # mid @ [CHR ''}'']
        \<and> CHR ''{'' \<notin> set pre \<and> CHR ''}'' \<notin> set post"
    by auto
next
  assume "\<exists>pre mid post.
        str = pre @ CHR ''{'' # mid @ CHR ''}'' # post \<and> span = CHR ''{'' # mid @ [CHR ''}'']
        \<and> CHR ''{'' \<notin> set pre \<and> CHR ''}'' \<notin> set post"
  then obtain pre mid post where
    str: "str = pre @ CHR ''{'' # mid @ CHR ''}'' # post" and
    span: "span = CHR ''{'' # mid @ [CHR ''}'']" and
    pre: "CHR ''{'' \<notin> set pre" and post: "CHR ''}'' \<notin> set post"
    by blast
  from pre have 1: "dropWhile (\<lambda>c. c \<noteq> CHR ''{'') str = CHR ''{'' # mid @ CHR ''}'' # post"
    unfolding str by (subst dropWhile_append2) auto
  have "rev (CHR ''{'' # mid @ CHR ''}'' # post) = rev post @ (CHR ''}'' # rev mid @ [CHR ''{''])"
    by simp
  moreover from post have "dropWhile (\<lambda>c. c \<noteq> CHR ''}'') (rev post @ (CHR ''}'' # rev mid @ [CHR ''{'']))
      = CHR ''}'' # rev mid @ [CHR ''{'']"
    by (subst dropWhile_append2) auto
  ultimately show "first_to_last_brace str = Some span"
    by (simp add: first_to_last_brace_def 1 span)
qed

section \<open>The transport and the operations, case by case\<close>

text \<open>
  The result of \<^verbatim>\<open>makeRequest\<close> on its two paths, what it sends and logs, and the result of
  each operation as a function of the result of \<^verbatim>\<open>makeRequest\<close>.
\<close>

lemma makeRequest_success:
  assumes "upstream_replies rt svc messages data"
  shows "fst (makeRequest rt svc messages options w) = Inr data"
  using assms
  by (auto simp: upstream_replies_def makeRequest_def makeRequest_try_def Let_def
      split: fetch_outcome.splits sum.splits)

lemma makeRequest_options_irrelevant:
  "makeRequest rt svc messages options w = makeRequest rt svc messages options' w"
  by (simp add: makeRequest_def)


text \<open>
  A \<^verbatim>\<open>fetch\<close> that the abort signal cancels rejects with the name \<^verbatim>\<open>AbortError\<close>; the
  \<^verbatim>\<open>catch\<close> block reports it as a request timeout.
\<close>

lemma abort_reported_as_timeout:
  assumes "fetch rt (fetch_request svc messages) = Rejected err"
    and "err_name err = ''AbortError''"
  shows "fst (makeRequest rt svc messages options w) =
           Inl (createError (stack_frames rt 130)
                  (''Failed to communicate with AI service: ''
                   @ ''Request timeout - OpenRouter API took too long to respond'') 500)"
  using assms
  by (simp add: makeRequest_def makeRequest_try_def Let_def errorMessage_of_def)


lemma makeRequest_sent:
  "sent (snd (makeRequest rt svc messages options w)) = sent w @ [fetch_request svc messages]"
  by (auto simp: makeRequest_def makeRequest_try_def Let_def emit_def
      split: fetch_outcome.splits sum.splits prod.splits)

lemma requestBody_apiKey: "requestBody (svc\<lparr>apiKey := key'\<rparr>) messages = requestBody svc messages"
  by (simp add: requestBody_def)

lemma completions_url_apiKey: "completions_url (svc\<lparr>apiKey := key'\<rparr>) = completions_url svc"
  by (simp add: completions_url_def)

lemma makeRequest_try_logs_key_independent:
  assumes "fetch rt (fetch_request (svc\<lparr>apiKey := key'\<rparr>) messages)
             = fetch rt (fetch_request svc messages)"
  shows "fst (makeRequest_try rt (svc\<lparr>apiKey := key'\<rparr>) messages w)
           = fst (makeRequest_try rt svc messages w)
       \<and> logs (snd (makeRequest_try rt (svc\<lparr>apiKey := key'\<rparr>) messages w))
           = logs (snd (makeRequest_try rt svc messages w))"
proof (cases "fetch rt (fetch_request svc messages)")
  case (Rejected err)
  with assms show ?thesis
    by (simp add: makeRequest_try_def Let_def emit_def requestBody_apiKey completions_url_apiKey)
next
  case (Resolved response)
  with assms show ?thesis
    by (cases "resp_text response"; cases "resp_json response")
       (simp_all add: makeRequest_try_def Let_def emit_def requestBody_apiKey
          completions_url_apiKey)
qed

text \<open>
  The key of the service reaches the log through the outcome of \<^verbatim>\<open>fetch\<close> only: two keys
  that are both set, or both empty, and for which \<^verbatim>\<open>fetch\<close> has the same outcome leave the
  same log.
\<close>

lemma makeRequest_logs_key_independent:
  assumes "(key' = []) = (apiKey svc = [])"
    and "fetch rt (fetch_request (svc\<lparr>apiKey := key'\<rparr>) messages)
           = fetch rt (fetch_request svc messages)"
  shows "logs (snd (makeRequest rt (svc\<lparr>apiKey := key'\<rparr>) messages options w))
           = logs (snd (makeRequest rt svc messages options w))"
proof -
  obtain res w1 where r: "makeRequest_try rt svc messages w = (res, w1)"
    by (cases "makeRequest_try rt svc messages w")
  obtain res' w1' where
    r': "makeRequest_try rt (svc\<lparr>apiKey := key'\<rparr>) messages w = (res', w1')"
    by (cases "makeRequest_try rt (svc\<lparr>apiKey := key'\<rparr>) messages w")
  from makeRequest_try_logs_key_independent [OF assms(2), of w] r r'
  have same: "res' = res" "logs w1' = logs w1" by simp_all
  show ?thesis
    using assms(1) same by (cases res) (simp_all add: makeRequest_def r r' emit_def)
qed

lemma generateResponse_fst:
  "fst (generateResponse rt svc request w) =
     (case fst (makeRequest rt svc (chat_messages request) options w) of
        Inl e \<Rightarrow> Inl e
      | Inr data \<Rightarrow> Inr (str_or (first_content data) ''No response generated''))"
  unfolding generateResponse_def
  by (subst makeRequest_options_irrelevant [where options' = options])
     (auto split: prod.splits sum.splits)

lemma parseApiPrompt_fst:
  "fst (parseApiPrompt rt svc prompt w) =
     (case fst (makeRequest rt svc (analysis_messages prompt) options w) of
        Inl e \<Rightarrow> Inl e
      | Inr data \<Rightarrow>
          Inr (case match_braces (str_or (first_content data) []) of
                 None \<Rightarrow> analysis_fallback prompt
               | Some jsonMatch \<Rightarrow>
                   (case JSON_parse jsonMatch of
                      None \<Rightarrow> analysis_fallback prompt
                    | Some parsed \<Rightarrow> parsed)))"
  unfolding parseApiPrompt_def
  by (subst makeRequest_options_irrelevant [where options' = options])
     (auto simp: Let_def split: prod.splits sum.splits option.splits)

lemma generateApiCode_fst:
  "fst (generateApiCode rt svc request w) =
     (case fst (makeRequest rt svc (codegen_messages request) options w) of
        Inl e \<Rightarrow> Inl e
      | Inr data \<Rightarrow>
          Inr (case match_braces (str_or (first_content data) []) of
                 None \<Rightarrow> codegen_fallback request (str_or (first_content data) [])
               | Some jsonMatch \<Rightarrow>
                   (case JSON_parse jsonMatch of
                      None \<Rightarrow> codegen_fallback request (str_or (first_content data) [])
                    | Some parsed \<Rightarrow> parsed)))"
  unfolding generateApiCode_def
  by (subst makeRequest_options_irrelevant [where options' = options])
     (auto simp: Let_def split: prod.splits sum.splits option.splits)


lemma parseApiPrompt_sent:
  "sent (snd (parseApiPrompt rt svc prompt w)) =
     sent w @ [fetch_request svc (analysis_messages prompt)]"
proof -
  obtain res w' where r: "makeRequest rt svc (analysis_messages prompt)
      \<lparr>opt_maxTokens = Some ''500'', opt_temperature = Some ''0.2''\<rparr> w = (res, w')"
    by (cases "makeRequest rt svc (analysis_messages prompt)
      \<lparr>opt_maxTokens = Some ''500'', opt_temperature = Some ''0.2''\<rparr> w")
  with makeRequest_sent [of rt svc "analysis_messages prompt"
      "\<lparr>opt_maxTokens = Some ''500'', opt_temperature = Some ''0.2''\<rparr>" w]
  have "sent w' = sent w @ [fetch_request svc (analysis_messages prompt)]" by simp
  then show ?thesis
    by (simp add: parseApiPrompt_def r emit_def Let_def split: sum.splits option.splits)
qed

lemma generateApiCode_sent:
  "sent (snd (generateApiCode rt svc request w)) =
     sent w @ [fetch_request svc (codegen_messages request)]"
proof -
  obtain res w' where r: "makeRequest rt svc (codegen_messages request)
      \<lparr>opt_maxTokens = Some ''2000'', opt_temperature = Some ''0.3''\<rparr> w = (res, w')"
    by (cases "makeRequest rt svc (codegen_messages request)
      \<lparr>opt_maxTokens = Some ''2000'', opt_temperature = Some ''0.3''\<rparr> w")
  with makeRequest_sent [of rt svc "codegen_messages request"
      "\<lparr>opt_maxTokens = Some ''2000'', opt_temperature = Some ''0.3''\<rparr>" w]
  have "sent w' = sent w @ [fetch_request svc (codegen_messages request)]" by simp
  then show ?thesis
    by (simp add: generateApiCode_def r emit_def Let_def split: sum.splits option.splits)
qed

lemma content_missing_str_or: "content_missing data \<Longrightarrow> str_or (first_content data) [] = []"
  by (auto simp: content_missing_def first_content_def str_or_def split: list.splits option.splits)

lemma interpretation_fails_fallback:
  "interpretation_fails content \<Longrightarrow>
     (case match_braces content of
        None \<Rightarrow> fallback
      | Some jsonMatch \<Rightarrow>
          (case JSON_parse jsonMatch of None \<Rightarrow> fallback | Some parsed \<Rightarrow> parsed)) = fallback"
  by (auto simp: interpretation_fails_def split: option.splits)

section \<open>Facts about the example runs\<close>

lemma upstream_answering_replies:
  "upstream_replies (upstream_answering data) svc messages data"
  by (simp add: upstream_replies_def upstream_answering_def response_ok_def)

lemma reply_choice_content:
  "str_or (first_content (completion [reply_choice reply])) [] = reply"
  by (simp add: str_or_def first_content_def completion_def reply_choice_def)

lemma not_json_fails: "interpretation_fails ''Here you go: {not json}''"
  by (simp add: interpretation_fails_def JSON_parse_def next_token_def dquote_def is_ws_def
      is_digit_def lex_keyword_def)

lemma two_objects_span:
  \<open>first_to_last_brace ''{"a":1} text {"b":2}'' = Some ''{"a":1} text {"b":2}''\<close>
  by (simp add: first_to_last_brace_def)

lemma two_objects_not_json: \<open>JSON_parse ''{"a":1} text {"b":2}'' = None\<close>
  by (simp add: JSON_parse_def next_token_def dquote_def backslash_def is_ws_def is_digit_def
      lex_number_def lex_int_def lex_frac_def lex_exp_def lex_digits_def lex_keyword_def
      prepend_def)

lemma two_objects_match:
  \<open>match_braces ''{"a":1} text {"b":2}'' = Some ''{"a":1} text {"b":2}''\<close>
  by (simp add: match_braces_first_to_last two_objects_span)

lemma intent_only_parses:
  \<open>match_braces ''{"intent":"list books"}'' = Some ''{"intent":"list books"}''
   \<and> JSON_parse ''{"intent":"list books"}''
       = Some (widen (JObj [(''intent'', JStr ''list books'')]))\<close>
  by (simp add: match_braces_first_to_last first_to_last_brace_def widen_def
      JSON_parse_def next_token_def dquote_def backslash_def is_ws_def is_digit_def
      lex_keyword_def prepend_def)

text \<open>
  An escape of four hexadecimal digits denotes the code unit with that number, above 255
  as well: the string literal with the escape of 0141 decodes to the one code unit 321.
\<close>

lemma escape_above_255:
  "JSON_parse ([dquote, backslash] @ ''u0141'' @ [dquote]) = Some (JStr [321])"
  by code_simp


section \<open>Properties of the service\<close>

subsection \<open>C1: an upstream status that is not a success\<close>

text \<open>
  C1, as the code has it. The upstream answers 404 \<^verbatim>\<open>Not Found\<close> with the body text
  \<^verbatim>\<open>no such model\<close>. The error of line 101 carries the status 404, but it is thrown inside
  the \<^verbatim>\<open>try\<close> block, so the \<^verbatim>\<open>catch\<close> block of the same function replaces it: the error
  that reaches the caller has the status 500, and none of its properties holds the body
  text.
\<close>

theorem upstream_error_counterexample:
  "fst (makeRequest (upstream_status 404 ''Not Found'' ''no such model'') demo_service greeting
          no_options empty_world) =
     Inl \<lparr>err_name = ''Error'',
          err_message = ''Failed to communicate with AI service: AI service error: Not Found'',
          err_code = None,
          err_stack = ''Error: Failed to communicate with AI service: AI service error: Not Found'',
          err_statusCode = Some 500,
          err_isOperational = Some True\<rparr>"
  by (simp add: makeRequest_def makeRequest_try_def Let_def upstream_status_def response_ok_def
      createError_def errorMessage_of_def)

text \<open>
  C1, amended. For every upstream response with a status that is not a success, the
  transport call fails with an operational error raised to the caller, and each of
  \<^verbatim>\<open>generateResponse\<close>, \<^verbatim>\<open>parseApiPrompt\<close> and \<^verbatim>\<open>generateApiCode\<close> fails with that same error
  when the call is made for its messages. The body text of the response is not a part of
  the error: when the body text can be read, it is handed to the logger together with the
  upstream status code, in the record \<^verbatim>\<open>OpenRouter API error:\<close>, and the error raised is
  the same whatever the body text is.
\<close>

theorem upstream_error_reported:
  assumes "fetch rt (fetch_request svc messages) = Resolved response"
    and "\<not> response_ok response"
  shows "(\<exists>e. fst (makeRequest rt svc messages options w) = Inl e
            \<and> err_isOperational e = Some True
            \<and> (messages = chat_messages request \<longrightarrow>
                 fst (generateResponse rt svc request w) = Inl e)
            \<and> (messages = analysis_messages prompt \<longrightarrow>
                 fst (parseApiPrompt rt svc prompt w) = Inl e)
            \<and> (messages = codegen_messages generation \<longrightarrow>
                 fst (generateApiCode rt svc generation w) = Inl e))
       \<and> (resp_text response = Inr body \<longrightarrow>
            \<lparr>log_level = Log_error, log_message = ''OpenRouter API error:'',
             log_meta = Fields [(''status'', L_Num (resp_status response)),
                                (''error'', L_Str body)]\<rparr>
              \<in> set (emitted w (snd (makeRequest rt svc messages options w)))
          \<and> (\<forall>body'.
                fst (makeRequest
                       (rt\<lparr>fetch := \<lambda>request. Resolved (response\<lparr>resp_text := Inr body'\<rparr>)\<rparr>)
                       svc messages options w) =
                fst (makeRequest rt svc messages options w)))"
proof (intro conjI impI)
  have "\<exists>err. fst (makeRequest rt svc messages options w) =
            Inl (createError (stack_frames rt 130)
                   (''Failed to communicate with AI service: '' @ errorMessage_of err) 500)"
    using assms
    by (cases "resp_text response") (auto simp: makeRequest_def makeRequest_try_def Let_def)
  then obtain e where e: "fst (makeRequest rt svc messages options w) = Inl e"
    and op: "err_isOperational e = Some True"
    by (auto simp: createError_def)
  have "fst (generateResponse rt svc request w) = Inl e" if "messages = chat_messages request"
    using e that by (simp add: generateResponse_fst [where options = options])
  moreover have "fst (parseApiPrompt rt svc prompt w) = Inl e"
    if "messages = analysis_messages prompt"
    using e that by (simp add: parseApiPrompt_fst [where options = options])
  moreover have "fst (generateApiCode rt svc generation w) = Inl e"
    if "messages = codegen_messages generation"
    using e that by (simp add: generateApiCode_fst [where options = options])
  ultimately show "\<exists>e. fst (makeRequest rt svc messages options w) = Inl e
            \<and> err_isOperational e = Some True
            \<and> (messages = chat_messages request \<longrightarrow>
                 fst (generateResponse rt svc request w) = Inl e)
            \<and> (messages = analysis_messages prompt \<longrightarrow>
                 fst (parseApiPrompt rt svc prompt w) = Inl e)
            \<and> (messages = codegen_messages generation \<longrightarrow>
                 fst (generateApiCode rt svc generation w) = Inl e)"
    using e op by blast
next
  assume "resp_text response = Inr body"
  with assms show "\<lparr>log_level = Log_error, log_message = ''OpenRouter API error:'',
             log_meta = Fields [(''status'', L_Num (resp_status response)),
                                (''error'', L_Str body)]\<rparr>
              \<in> set (emitted w (snd (makeRequest rt svc messages options w)))"
    by (simp add: makeRequest_def makeRequest_try_def Let_def emit_def emitted_def)
next
  assume "resp_text response = Inr body"
  with assms show "\<forall>body'.
                fst (makeRequest
                       (rt\<lparr>fetch := \<lambda>request. Resolved (response\<lparr>resp_text := Inr body'\<rparr>)\<rparr>)
                       svc messages options w) =
                fst (makeRequest rt svc messages options w)"
    by (simp add: makeRequest_def makeRequest_try_def Let_def response_ok_def)
qed

theorem upstream_error_reported_witness:
  "(\<exists>e. fst (makeRequest (upstream_status 404 ''Not Found'' ''no such model'') demo_service
              (analysis_messages ''list all books'') no_options empty_world) = Inl e
      \<and> err_isOperational e = Some True
      \<and> fst (parseApiPrompt (upstream_status 404 ''Not Found'' ''no such model'') demo_service
               ''list all books'' empty_world) = Inl e)
   \<and> \<lparr>log_level = Log_error, log_message = ''OpenRouter API error:'',
       log_meta = Fields [(''status'', L_Num 404), (''error'', L_Str ''no such model'')]\<rparr>
       \<in> set (emitted empty_world (snd (makeRequest
              (upstream_status 404 ''Not Found'' ''no such model'') demo_service
              (analysis_messages ''list all books'') no_options empty_world)))
   \<and> fst (makeRequest (upstream_status 404 ''Not Found'' ''model offline'') demo_service
            (analysis_messages ''list all books'') no_options empty_world) =
     fst (makeRequest (upstream_status 404 ''Not Found'' ''no such model'') demo_service
            (analysis_messages ''list all books'') no_options empty_world)"
proof -
  let ?rt = "upstream_status 404 ''Not Found'' ''no such model''"
  let ?response = "\<lparr>resp_status = 404, resp_statusText = ''Not Found'',
      resp_text = Inr ''no such model'', resp_json = Inl invalid_json\<rparr>"
  have f: "fetch ?rt (fetch_request demo_service (analysis_messages ''list all books''))
             = Resolved ?response"
    by (simp add: upstream_status_def)
  have n: "\<not> response_ok ?response"
    by (simp add: response_ok_def)
  have u: "?rt\<lparr>fetch := \<lambda>request. Resolved (?response\<lparr>resp_text := Inr ''model offline''\<rparr>)\<rparr>
             = upstream_status 404 ''Not Found'' ''model offline''"
    by (simp add: upstream_status_def)
  from upstream_error_reported [OF f n, where options = no_options and w = empty_world
      and prompt = "''list all books''" and body = "''no such model''"]
  show ?thesis
    unfolding u [symmetric] by simp blast
qed

subsection \<open>C2: the fields of the results\<close>

text \<open>
  C2, as the code has it. A reply whose brace span parses is returned as parsed, with the
  members the reply has and no others. The upstream answers an object that holds
  \<^verbatim>\<open>intent\<close> alone: both operations return that object, and the other fields of the
  declared shapes are missing.
\<close>

theorem partially_populated_counterexample:
  \<open>fst (parseApiPrompt
          (upstream_answering (completion [reply_choice ''{"intent":"list books"}'']))
          demo_service ''list all books'' empty_world) =
     Inr (widen (JObj [(''intent'', JStr ''list books'')]))
   \<and> \<not> has_fields analysis_fields (widen (JObj [(''intent'', JStr ''list books'')]))
   \<and> fst (generateApiCode
          (upstream_answering (completion [reply_choice ''{"intent":"list books"}'']))
          demo_service demo_generation empty_world) =
     Inr (widen (JObj [(''intent'', JStr ''list books'')]))
   \<and> \<not> has_fields codegen_fields (widen (JObj [(''intent'', JStr ''list books'')]))\<close>
proof -
  let ?reply = \<open>''{"intent":"list books"}''\<close>
  have "fst (makeRequest (upstream_answering (completion [reply_choice ?reply])) demo_service
          messages no_options empty_world) = Inr (completion [reply_choice ?reply])"
    for messages
    by (rule makeRequest_success) (rule upstream_answering_replies)
  then show ?thesis
    using intent_only_parses
    by (simp add: parseApiPrompt_fst [where options = no_options]
        generateApiCode_fst [where options = no_options] reply_choice_content has_fields_def
        analysis_fields_def codegen_fields_def widen_def)
qed

text \<open>
  C2, amended. Whenever the interpretation falls back (the reply has no brace span, or the
  span is not valid JSON), the result of \<^verbatim>\<open>parseApiPrompt\<close> and of \<^verbatim>\<open>generateApiCode\<close> holds
  every field of the declared shape; whenever the brace span parses, the result is the
  parsed value itself.
\<close>

theorem populated_on_fallback:
  assumes "upstream_replies rt svc (analysis_messages prompt) data"
    and "upstream_replies rt svc (codegen_messages request) data'"
  shows "(interpretation_fails (str_or (first_content data) []) \<longrightarrow>
            (\<exists>r. fst (parseApiPrompt rt svc prompt w) = Inr r \<and> has_fields analysis_fields r))
       \<and> (interpretation_fails (str_or (first_content data') []) \<longrightarrow>
            (\<exists>r. fst (generateApiCode rt svc request w) = Inr r \<and> has_fields codegen_fields r))
       \<and> (\<forall>span parsed.
             match_braces (str_or (first_content data) []) = Some span
               \<and> JSON_parse span = Some parsed \<longrightarrow>
             fst (parseApiPrompt rt svc prompt w) = Inr parsed)
       \<and> (\<forall>span parsed.
             match_braces (str_or (first_content data') []) = Some span
               \<and> JSON_parse span = Some parsed \<longrightarrow>
             fst (generateApiCode rt svc request w) = Inr parsed)"
  using makeRequest_success [OF assms(1)] makeRequest_success [OF assms(2)]
  by (auto simp: parseApiPrompt_fst [where options = no_options]
      generateApiCode_fst [where options = no_options] interpretation_fails_def
      analysis_fallback_def codegen_fallback_def has_fields_def analysis_fields_def
      codegen_fields_def widen_def split: option.splits)

theorem populated_on_fallback_witness:
  \<open>interpretation_fails ''Here you go: {not json}''
   \<and> (\<exists>r. fst (parseApiPrompt
                 (upstream_answering (completion [reply_choice ''Here you go: {not json}'']))
                 demo_service ''create a book'' empty_world) = Inr r
           \<and> has_fields analysis_fields r)
   \<and> (\<exists>r. fst (generateApiCode
                 (upstream_answering (completion [reply_choice ''Here you go: {not json}'']))
                 demo_service demo_post empty_world) = Inr r
           \<and> has_fields codegen_fields r)
   \<and> match_braces ''{"intent":"list books"}'' = Some ''{"intent":"list books"}''
   \<and> JSON_parse ''{"intent":"list books"}''
       = Some (widen (JObj [(''intent'', JStr ''list books'')]))
   \<and> fst (parseApiPrompt
            (upstream_answering (completion [reply_choice ''{"intent":"list books"}'']))
            demo_service ''list all books'' empty_world) =
       Inr (widen (JObj [(''intent'', JStr ''list books'')]))\<close>
proof -
  let ?bad = "''Here you go: {not json}''"
  let ?good = \<open>''{"intent":"list books"}''\<close>
  from populated_on_fallback [where svc = demo_service and prompt = "''create a book''"
      and request = demo_post and w = empty_world,
      OF upstream_answering_replies upstream_answering_replies,
      of "completion [reply_choice ?bad]"]
    populated_on_fallback [where svc = demo_service and prompt = "''list all books''"
      and request = demo_post and w = empty_world,
      OF upstream_answering_replies upstream_answering_replies,
      of "completion [reply_choice ?good]"]
  show ?thesis
    unfolding reply_choice_content using not_json_fails intent_only_parses by blast
qed

subsection \<open>C3: the token and temperature settings\<close>

text \<open>
  C3, what the code sends. \<^verbatim>\<open>parseApiPrompt\<close> passes a maximum of 500 tokens and the
  temperature 0.2 to \<^verbatim>\<open>makeRequest\<close>, and \<^verbatim>\<open>generateApiCode\<close> passes 2000 and 0.3, but
  \<^verbatim>\<open>makeRequest\<close> never reads them: whatever the options are, the one request of a call is
  built from the service and the messages, and its body is the serialization of an object
  with the two members \<^verbatim>\<open>model\<close> and \<^verbatim>\<open>messages\<close>. No temperature and no token limit is sent.
\<close>

theorem sampling_options_not_sent:
  "sent (snd (parseApiPrompt rt svc prompt w)) =
     sent w @ [fetch_request svc (analysis_messages prompt)]
   \<and> sent (snd (generateApiCode rt svc request w)) =
     sent w @ [fetch_request svc (codegen_messages request)]
   \<and> sent (snd (makeRequest rt svc messages options w)) = sent w @ [fetch_request svc messages]
   \<and> http_body (fetch_request svc messages) =
     JSON_stringify
       (JObj [(''model'', JStr (model svc)),
              (''messages'', JArr (map message_json messages))])"
  by (simp add: parseApiPrompt_sent generateApiCode_sent makeRequest_sent fetch_request_def
      requestBody_def)

theorem sampling_options_not_sent_witness:
  \<open>map http_body
     (sent (snd (makeRequest (upstream_answering (completion [])) demo_service greeting
                   analysis_options empty_world))) =
     [''{"model":"deepseek/deepseek-chat-v3.1:free","messages":[{"role":"user","content":"hi"}]}'']\<close>
  using sampling_options_not_sent [of "upstream_answering (completion [])" demo_service
      "''list all books''" empty_world demo_generation greeting analysis_options]
  by (simp add: empty_world_def demo_service_def greeting_def message_json_def quote_def
      quote_char_def dquote_def backslash_def)

subsection \<open>C4: the response interpreter\<close>

text \<open>
  C4. The response interpreter of \<^verbatim>\<open>parseApiPrompt\<close> and \<^verbatim>\<open>generateApiCode\<close>. The regular
  expression selects the span that starts at the first opening brace of the reply and ends
  at its last closing brace: nothing before the span holds an opening brace, nothing after
  it a closing one, and the braces between are not balanced. The span is handed to
  \<^verbatim>\<open>JSON.parse\<close>. Each operation resolves in every case: with the parsed value when the span
  parses, with its fallback value when there is no span or the parse fails. The worked
  example is the reply made of two separate objects: the whole text is the span, it is not
  valid JSON, and both operations return their fallback.
\<close>

theorem response_interpreter:
  assumes "upstream_replies rt svc (analysis_messages prompt) data"
    and "upstream_replies rt svc (codegen_messages request) data'"
  shows "(match_braces reply = Some span \<longleftrightarrow>
            (\<exists>pre mid post.
               reply = pre @ CHR ''{'' # mid @ CHR ''}'' # post
               \<and> span = CHR ''{'' # mid @ [CHR ''}'']
               \<and> CHR ''{'' \<notin> set pre \<and> CHR ''}'' \<notin> set post))
       \<and> fst (parseApiPrompt rt svc prompt w) =
           Inr (case match_braces (str_or (first_content data) []) of
                  None \<Rightarrow> analysis_fallback prompt
                | Some jsonMatch \<Rightarrow>
                    (case JSON_parse jsonMatch of
                       None \<Rightarrow> analysis_fallback prompt
                     | Some parsed \<Rightarrow> parsed))
       \<and> fst (generateApiCode rt svc request w) =
           Inr (case match_braces (str_or (first_content data') []) of
                  None \<Rightarrow> codegen_fallback request (str_or (first_content data') [])
                | Some jsonMatch \<Rightarrow>
                    (case JSON_parse jsonMatch of
                       None \<Rightarrow> codegen_fallback request (str_or (first_content data') [])
                     | Some parsed \<Rightarrow> parsed))"
  using makeRequest_success [OF assms(1)] makeRequest_success [OF assms(2)]
  by (simp add: parseApiPrompt_fst [where options = no_options]
      generateApiCode_fst [where options = no_options] match_braces_first_to_last
      first_to_last_brace_Some_iff)

theorem response_interpreter_witness:
  \<open>match_braces ''{"a":1} text {"b":2}'' = Some ''{"a":1} text {"b":2}''
   \<and> JSON_parse ''{"a":1} text {"b":2}'' = None
   \<and> fst (parseApiPrompt
            (upstream_answering (completion [reply_choice ''{"a":1} text {"b":2}'']))
            demo_service ''list all books'' empty_world) =
       Inr (analysis_fallback ''list all books'')
   \<and> fst (generateApiCode
            (upstream_answering (completion [reply_choice ''{"a":1} text {"b":2}'']))
            demo_service demo_generation empty_world) =
       Inr (codegen_fallback demo_generation ''{"a":1} text {"b":2}'')\<close>
  using response_interpreter [where svc = demo_service and prompt = "''list all books''"
      and request = demo_generation and w = empty_world,
      OF upstream_answering_replies upstream_answering_replies]
  by (simp add: reply_choice_content two_objects_match two_objects_not_json)

subsection \<open>C5: the timeout\<close>

text \<open>
  C5. A transport call that does not resolve within 30 seconds is cancelled and fails
  with the timeout error, raised to the caller. The code does this for the \<^verbatim>\<open>fetch\<close> call:
  when the timer fires, the caller receives the error \<^verbatim>\<open>Request timeout\<close>. It does not do
  it for the read of the body, against the comment of line 80 (\<^verbatim>\<open>Add timeout to prevent
  hanging\<close>): once \<^verbatim>\<open>fetch\<close> has resolved in time the timer is cleared, and a read of the
  body that never settles leaves the call unsettled for ever, with no error raised.
\<close>

theorem timer_covers_fetch_only:
  "(timer_fires (fetch_delay p) \<longrightarrow>
      (\<exists>w'. makeRequest_paced p rt svc messages options w =
         Some (Inl (createError (stack_frames rt 130)
                      (''Failed to communicate with AI service: ''
                       @ ''Request timeout - OpenRouter API took too long to respond'') 500),
               w')))
   \<and> (\<not> timer_fires (fetch_delay p)
        \<and> fetch rt (fetch_request svc messages) = Resolved response
        \<and> body_delay p = Never \<longrightarrow>
      makeRequest_paced p rt svc messages options w = None)"
proof (intro conjI impI)
  assume fires: "timer_fires (fetch_delay p)"
  let ?rt = "rt\<lparr>fetch := \<lambda>request.
      Rejected (AbortError (stack_frames rt 84) (abort_message p))\<rparr>"
  have "fst (makeRequest ?rt svc messages options w) =
          Inl (createError (stack_frames ?rt 130)
                 (''Failed to communicate with AI service: ''
                  @ ''Request timeout - OpenRouter API took too long to respond'') 500)"
    by (rule abort_reported_as_timeout [where err = "AbortError (stack_frames rt 84)
          (abort_message p)"]) (simp_all add: AbortError_def)
  then have "makeRequest ?rt svc messages options w =
      (Inl (createError (stack_frames rt 130)
              (''Failed to communicate with AI service: ''
               @ ''Request timeout - OpenRouter API took too long to respond'') 500),
       snd (makeRequest ?rt svc messages options w))"
    by (cases "makeRequest ?rt svc messages options w") simp
  with fires show "\<exists>w'. makeRequest_paced p rt svc messages options w =
         Some (Inl (createError (stack_frames rt 130)
                      (''Failed to communicate with AI service: ''
                       @ ''Request timeout - OpenRouter API took too long to respond'') 500),
               w')"
    unfolding makeRequest_paced_def by (simp only: if_True) blast
next
  assume "\<not> timer_fires (fetch_delay p)
        \<and> fetch rt (fetch_request svc messages) = Resolved response
        \<and> body_delay p = Never"
  then show "makeRequest_paced p rt svc messages options w = None"
    by (simp add: makeRequest_paced_def)
qed

theorem timer_covers_fetch_only_witness:
  "map_option fst
     (makeRequest_paced stalled_fetch (upstream_answering (completion [reply_choice ''hello'']))
        demo_service greeting no_options empty_world) =
     Some (Inl (createError []
                  (''Failed to communicate with AI service: ''
                   @ ''Request timeout - OpenRouter API took too long to respond'') 500))
   \<and> makeRequest_paced stalled_body (upstream_answering (completion [reply_choice ''hello'']))
       demo_service greeting no_options empty_world = None"
proof -
  let ?rt = "upstream_answering (completion [reply_choice ''hello''])"
  have a: "timer_fires (fetch_delay stalled_fetch)"
    by (simp add: stalled_fetch_def timer_fires_def)
  have b: "\<not> timer_fires (fetch_delay stalled_body)
         \<and> fetch ?rt (fetch_request demo_service greeting) =
             Resolved \<lparr>resp_status = 200, resp_statusText = ''OK'', resp_text = Inr [],
                       resp_json = Inr (completion [reply_choice ''hello''])\<rparr>
         \<and> body_delay stalled_body = Never"
    by (simp add: stalled_body_def timer_fires_def timeout_ms_def upstream_answering_def)
  have s: "stack_frames ?rt 130 = []"
    by (simp add: upstream_answering_def)
  from timer_covers_fetch_only [where p = stalled_fetch and rt = "?rt"
      and svc = demo_service and messages = greeting and options = no_options
      and w = empty_world] a
  have "map_option fst
     (makeRequest_paced stalled_fetch ?rt demo_service greeting no_options empty_world) =
     Some (Inl (createError []
                  (''Failed to communicate with AI service: ''
                   @ ''Request timeout - OpenRouter API took too long to respond'') 500))"
    unfolding s by auto
  moreover from timer_covers_fetch_only [where p = stalled_body and rt = "?rt"
      and svc = demo_service and messages = greeting and options = no_options
      and w = empty_world
      and response = "\<lparr>resp_status = 200, resp_statusText = ''OK'', resp_text = Inr [],
        resp_json = Inr (completion [reply_choice ''hello''])\<rparr>"] b
  have "makeRequest_paced stalled_body ?rt demo_service greeting no_options empty_world = None"
    by blast
  ultimately show ?thesis by blast
qed

subsection \<open>C6: the text \<^verbatim>\<open>generateResponse\<close> returns\<close>

text \<open>
  C6. \<^verbatim>\<open>generateResponse\<close> returns \<^verbatim>\<open>choices[0].message.content\<close> of the upstream
  response. When the \<^verbatim>\<open>choices\<close> array is empty, or its first element has no message, or
  the message has no content, or the content is the empty text, it returns the literal
  \<^verbatim>\<open>No response generated\<close>.
\<close>

theorem generateResponse_first_content:
  assumes "upstream_replies rt svc (chat_messages request) data"
  shows "fst (generateResponse rt svc request w) =
           Inr (case choices data of
                  [] \<Rightarrow> ''No response generated''
                | c # cs \<Rightarrow>
                    (case choice_message c of
                       None \<Rightarrow> ''No response generated''
                     | Some m \<Rightarrow>
                         (case reply_content m of
                            None \<Rightarrow> ''No response generated''
                          | Some reply \<Rightarrow>
                              if reply = [] then ''No response generated'' else reply)))"
  using makeRequest_success [OF assms]
  by (simp add: generateResponse_fst [where options = no_options] first_content_def str_or_def
      split: list.splits option.splits)

theorem generateResponse_first_content_witness:
  "fst (generateResponse (upstream_answering (completion [reply_choice ''4'']))
          demo_service
          \<lparr>ai_prompt = ''What is 2+2?'', ai_context = None, ai_maxTokens = None,
           ai_temperature = None\<rparr> empty_world) = Inr ''4''
   \<and> fst (generateResponse (upstream_answering (completion []))
          demo_service
          \<lparr>ai_prompt = ''What is 2+2?'', ai_context = None, ai_maxTokens = None,
           ai_temperature = None\<rparr> empty_world) = Inr ''No response generated''"
  using generateResponse_first_content [OF upstream_answering_replies,
          where data = "completion [reply_choice ''4'']" and svc = demo_service
            and w = empty_world]
        generateResponse_first_content [OF upstream_answering_replies,
          where data = "completion []" and svc = demo_service and w = empty_world]
  by (simp add: completion_def reply_choice_def)

subsection \<open>C7: the fallback values\<close>

text \<open>
  C7. When the interpretation falls back (the reply has no brace span, or the span is not
  valid JSON), \<^verbatim>\<open>parseApiPrompt\<close> returns exactly the object with \<^verbatim>\<open>intent\<close> the first 100
  characters of the prompt, \<^verbatim>\<open>suggestedEndpoint\<close> \<^verbatim>\<open>/api/generated\<close>, \<^verbatim>\<open>suggestedMethod\<close>
  \<^verbatim>\<open>GET\<close>, no \<^verbatim>\<open>parameters\<close> and \<^verbatim>\<open>complexity\<close> \<^verbatim>\<open>medium\<close>; \<^verbatim>\<open>generateApiCode\<close> returns
  exactly the object with \<^verbatim>\<open>endpoint\<close> \<^verbatim>\<open>/api/generated\<close>, \<^verbatim>\<open>method\<close> the caller's method or
  \<^verbatim>\<open>GET\<close>, \<^verbatim>\<open>controllerCode\<close> the comment line that names the description followed by the
  raw reply, the fixed \<^verbatim>\<open>serviceCode\<close> comment, and \<^verbatim>\<open>schema\<close> with the caller's input and
  output schemas, each replaced by the empty object when it is absent or falsy.
\<close>

theorem fallback_values:
  assumes "upstream_replies rt svc (analysis_messages prompt) data"
    and "upstream_replies rt svc (codegen_messages request) data'"
    and "interpretation_fails (str_or (first_content data) [])"
    and "interpretation_fails (str_or (first_content data') [])"
  shows "fst (parseApiPrompt rt svc prompt w) =
           Inr (widen
                  (JObj
                     [(''intent'', JStr (take 100 prompt)),
                      (''suggestedEndpoint'', JStr ''/api/generated''),
                      (''suggestedMethod'', JStr ''GET''),
                      (''parameters'', JArr []),
                      (''complexity'', JStr ''medium'')]))
       \<and> fst (generateApiCode rt svc request w) =
           Inr (widen
                  (JObj
                     [(''endpoint'', JStr ''/api/generated''),
                      (''method'',
                         JStr (case gen_method request of
                                 None \<Rightarrow> ''GET''
                               | Some m \<Rightarrow> if m = [] then ''GET'' else m)),
                      (''controllerCode'',
                         JStr (''// Generated from: '' @ gen_description request @ [CHR 0x0A]
                               @ str_or (first_content data') [])),
                      (''serviceCode'', JStr ''// Service logic would go here''),
                      (''schema'',
                         JObj [(''input'',
                                  (case gen_inputSchema request of
                                     None \<Rightarrow> JObj []
                                   | Some v \<Rightarrow> if truthy v then v else JObj [])),
                               (''output'',
                                  (case gen_outputSchema request of
                                     None \<Rightarrow> JObj []
                                   | Some v \<Rightarrow> if truthy v then v else JObj []))])]))"
proof -
  have "fst (parseApiPrompt rt svc prompt w) = Inr (analysis_fallback prompt)"
    using makeRequest_success [OF assms(1)]
    by (simp add: parseApiPrompt_fst [where options = no_options]
        interpretation_fails_fallback [OF assms(3)])
  moreover have "fst (generateApiCode rt svc request w) =
      Inr (codegen_fallback request (str_or (first_content data') []))"
    using makeRequest_success [OF assms(2)]
    by (simp add: generateApiCode_fst [where options = no_options]
        interpretation_fails_fallback [OF assms(4)])
  moreover have "codegen_fallback request content =
      widen
        (JObj
           [(''endpoint'', JStr ''/api/generated''),
            (''method'',
               JStr (case gen_method request of
                       None \<Rightarrow> ''GET''
                     | Some m \<Rightarrow> if m = [] then ''GET'' else m)),
            (''controllerCode'',
               JStr (''// Generated from: '' @ gen_description request @ [CHR 0x0A] @ content)),
            (''serviceCode'', JStr ''// Service logic would go here''),
            (''schema'',
               JObj [(''input'',
                        (case gen_inputSchema request of
                           None \<Rightarrow> JObj []
                         | Some v \<Rightarrow> if truthy v then v else JObj [])),
                     (''output'',
                        (case gen_outputSchema request of
                           None \<Rightarrow> JObj []
                         | Some v \<Rightarrow> if truthy v then v else JObj []))])])" for content
    unfolding codegen_fallback_def str_or_def json_or_def by simp
  ultimately show ?thesis
    by (simp add: analysis_fallback_def)
qed

theorem fallback_values_witness:
  "interpretation_fails ''Here you go: {not json}''
   \<and> fst (parseApiPrompt
            (upstream_answering (completion [reply_choice ''Here you go: {not json}'']))
            demo_service ''create a book'' empty_world) =
       Inr (widen
              (JObj
                 [(''intent'', JStr ''create a book''),
                  (''suggestedEndpoint'', JStr ''/api/generated''),
                  (''suggestedMethod'', JStr ''GET''),
                  (''parameters'', JArr []),
                  (''complexity'', JStr ''medium'')]))
   \<and> fst (generateApiCode
            (upstream_answering (completion [reply_choice ''Here you go: {not json}'']))
            demo_service demo_post empty_world) =
       Inr (widen
              (JObj
                 [(''endpoint'', JStr ''/api/generated''),
                  (''method'', JStr ''POST''),
                  (''controllerCode'',
                     JStr ''// Generated from: create a book\<newline>Here you go: {not json}''),
                  (''serviceCode'', JStr ''// Service logic would go here''),
                  (''schema'',
                     JObj [(''input'', JObj [(''type'', JStr ''object'')]),
                           (''output'', JObj [])])]))"
proof -
  let ?data = "completion [reply_choice ''Here you go: {not json}'']"
  have f: "interpretation_fails (str_or (first_content ?data) [])"
    unfolding reply_choice_content by (rule not_json_fails)
  from fallback_values [where svc = demo_service and prompt = "''create a book''"
      and request = demo_post and w = empty_world,
      OF upstream_answering_replies upstream_answering_replies f f]
  show ?thesis
    unfolding reply_choice_content using not_json_fails by (simp add: demo_post_def)
qed

subsection \<open>C8: which operations let a failure through\<close>



subsection \<open>C9: the API key and the log\<close>

text \<open>
  C9. No log record of the transport client holds the API key; the log shows the key as
  a presence flag only. The code shows the flag in the field \<^verbatim>\<open>apiKey\<close> of line 126, but
  the same record holds the message and the stack of the error that \<^verbatim>\<open>fetch\<close> rejected
  with, as they are. Against a \<^verbatim>\<open>fetch\<close> that checks the header values, a key with a
  character that is not legal in a header value is rejected with an error that quotes the
  \<^verbatim>\<open>Authorization\<close> header, and the record \<^verbatim>\<open>AI service request failed:\<close> that the call
  emits holds the key in three of its fields.
\<close>

theorem api_key_reaches_log:
  assumes "\<not> legal_header_value (apiKey svc)"
  shows "\<lparr>log_level = Log_error, log_message = ''AI service request failed:'',
          log_meta =
            Fields
              [(''message'',
                  L_Str (''Bearer '' @ apiKey svc @ '' is not a legal HTTP header value'')),
               (''originalError'',
                  L_Str (''Bearer '' @ apiKey svc @ '' is not a legal HTTP header value'')),
               (''errorName'', L_Str ''TypeError''),
               (''errorCode'', L_Undefined),
               (''stack'',
                  L_Str (''TypeError: Bearer '' @ apiKey svc
                         @ '' is not a legal HTTP header value'' @ stack_frames rt 84)),
               (''apiKey'', L_Str ''SET''),
               (''model'', L_Str (model svc)),
               (''baseUrl'', L_Str (baseUrl svc))]\<rparr>
         \<in> set (emitted w (snd (makeRequest (header_checking rt) svc messages options w)))"
proof -
  from assms have n: "apiKey svc \<noteq> []"
    by (auto simp: legal_header_value_def)
  from assms have "\<not> legal_header_value (''Bearer '' @ apiKey svc)"
    unfolding legal_header_value_def list_all_append by blast
  then have "fetch (header_checking rt) (fetch_request svc messages) =
      Rejected (illegal_header (stack_frames rt 84) (''Bearer '' @ apiKey svc))"
    by (simp add: header_checking_def fetch_request_def)
  then show ?thesis
    using n
    by (simp add: makeRequest_def makeRequest_try_def Let_def emit_def emitted_def
        illegal_header_def errorMessage_of_def)
qed

theorem api_key_reaches_log_witness:
  "\<lparr>log_level = Log_error, log_message = ''AI service request failed:'',
    log_meta =
      Fields
        [(''message'', L_Str ''Bearer sk-or-demo\<newline> is not a legal HTTP header value''),
         (''originalError'', L_Str ''Bearer sk-or-demo\<newline> is not a legal HTTP header value''),
         (''errorName'', L_Str ''TypeError''),
         (''errorCode'', L_Undefined),
         (''stack'',
            L_Str ''TypeError: Bearer sk-or-demo\<newline> is not a legal HTTP header value''),
         (''apiKey'', L_Str ''SET''),
         (''model'', L_Str ''deepseek/deepseek-chat-v3.1:free''),
         (''baseUrl'', L_Str ''https://openrouter.ai/api/v1'')]\<rparr>
   \<in> set (emitted empty_world
            (snd (makeRequest
                    (header_checking (upstream_answering (completion [reply_choice ''hello''])))
                    key_with_line_feed greeting no_options empty_world)))"
proof -
  have k: "\<not> legal_header_value (apiKey key_with_line_feed)"
    by (simp add: key_with_line_feed_def legal_header_value_def)
  from api_key_reaches_log [OF k,
      where rt = "upstream_answering (completion [reply_choice ''hello''])"
        and w = empty_world and messages = greeting and options = no_options]
  show ?thesis
    by (simp add: key_with_line_feed_def demo_service_def upstream_answering_def)
qed

subsection \<open>C10: a completion without content\<close>

text \<open>
  C10. When the upstream response has an empty \<^verbatim>\<open>choices\<close> array, or its first choice has
  no message, no content or an empty content, \<^verbatim>\<open>parseApiPrompt\<close> and \<^verbatim>\<open>generateApiCode\<close>
  return their fallback value: the content defaults to the empty text, the regular
  expression finds no brace span in it, and the fallback is built (by
  \<^verbatim>\<open>generateApiCode\<close> with an empty raw text).
\<close>

theorem missing_content_falls_back:
  assumes "upstream_replies rt svc (analysis_messages prompt) data"
    and "upstream_replies rt svc (codegen_messages request) data'"
    and "content_missing data" and "content_missing data'"
  shows "fst (parseApiPrompt rt svc prompt w) = Inr (analysis_fallback prompt)
       \<and> fst (generateApiCode rt svc request w) = Inr (codegen_fallback request [])"
  using makeRequest_success [OF assms(1)] makeRequest_success [OF assms(2)]
    content_missing_str_or [OF assms(3)] content_missing_str_or [OF assms(4)]
  by (simp add: parseApiPrompt_fst [where options = no_options]
      generateApiCode_fst [where options = no_options])

theorem missing_content_falls_back_witness:
  "content_missing (completion [])
   \<and> fst (parseApiPrompt (upstream_answering (completion [])) demo_service ''list all books''
          empty_world) = Inr (analysis_fallback ''list all books'')
   \<and> fst (generateApiCode (upstream_answering (completion [])) demo_service demo_generation
          empty_world) = Inr (codegen_fallback demo_generation [])"
proof -
  have m: "content_missing (completion [])"
    by (simp add: content_missing_def completion_def)
  from missing_content_falls_back [OF upstream_answering_replies upstream_answering_replies m m]
  show ?thesis using m by simp
qed

end
